theory Spec2Isabelle
  imports Complex_Main "HOL-Library.AList"
begin

section \<open>The Excellon interpreter of FlatCAM (flatcamParsers/ParseExcellon.py)\<close>

text \<open>
  The class \<^verbatim>\<open>Excellon\<close> is embedded as a record of its attributes, and its methods
  \<^verbatim>\<open>parse_lines\<close>, \<^verbatim>\<open>parse_number\<close>, \<^verbatim>\<open>create_geometry\<close>, \<^verbatim>\<open>convert_units\<close> and
  \<^verbatim>\<open>scale\<close> as functions that take the object and return it updated.

  Conventions of the embedding:
  \<^item> Python floats are the real numbers (no rounding, no overflow, no infinities).
  \<^item> Strings are lists of 8-bit characters; \<^verbatim>\<open>\d\<close> is the ten ASCII digits.
  \<^item> The patterns compiled in \<^verbatim>\<open>__init__\<close> are terms of a datatype of regular
    expressions, matched by a backtracking matcher with the priorities of Python's
    \<^verbatim>\<open>re\<close> module.
  \<^item> An exception is a value: a function that can raise returns the exception together
    with the object as mutated up to the raise.
  \<^item> Calls to the logger and to the progress display of the GUI are left out; the
    messages sent through \<^verbatim>\<open>app.inform\<close> are collected in the field \<open>inform\<close>.
  \<^item> Shapely is outside the repository: a point is a pair of reals, buffered and
    scaled shapes are symbolic terms.
\<close>

subsection \<open>Regular expressions as Python's re matches them\<close>

datatype regex =
    Lit char
  | Dot
  | Digit
  | Space
  | OneOf string
  | NoneOf string
  | Bol
  | Eol
  | Eps
  | Seq regex regex
  | Alt regex regex
  | Star regex
  | Opt regex
  | Grp nat regex
  | Look regex
  | NLook regex

text \<open>
  \<open>Lit c\<close> is the character \<open>c\<close>, \<open>Dot\<close> is \<^verbatim>\<open>.\<close> (anything but a newline), \<open>Digit\<close> is
  \<^verbatim>\<open>\d\<close>, \<open>Space\<close> is \<^verbatim>\<open>\s\<close>, \<open>OneOf\<close> and \<open>NoneOf\<close> are \<^verbatim>\<open>[...]\<close> and \<^verbatim>\<open>[^...]\<close>, \<open>Bol\<close>
  and \<open>Eol\<close> are \<^verbatim>\<open>^\<close> and \<^verbatim>\<open>$\<close>, \<open>Star\<close> and \<open>Opt\<close> are the greedy \<^verbatim>\<open>*\<close> and \<^verbatim>\<open>?\<close>,
  \<open>Grp k\<close> is the capturing group number \<open>k\<close>, \<open>Look\<close> is \<^verbatim>\<open>(?=...)\<close> and \<open>NLook\<close> is
  \<^verbatim>\<open>(?!...)\<close>.

  A cursor is the number of characters already passed and the rest of the subject.
  \<open>rmatch r p g\<close> lists every way \<open>r\<close> matches at cursor \<open>p\<close>, in the order in which a
  backtracking matcher tries them; the first complete one is the match Python reports.
\<close>

type_synonym groups = "nat \<rightharpoonup> string"
type_synonym cursor = "nat \<times> string"

definition is_digit :: "char \<Rightarrow> bool" where
  "is_digit c = (c \<in> set ''0123456789'')"

definition is_space :: "char \<Rightarrow> bool" where
  "is_space c = (c \<in> set [CHR '' '', CHR 0x09, CHR 0x0A, CHR 0x0B, CHR 0x0C, CHR 0x0D,
                            CHR 0x1C, CHR 0x1D, CHR 0x1E, CHR 0x1F, CHR 0x85, CHR 0xA0])"

definition one_char :: "(char \<Rightarrow> bool) \<Rightarrow> cursor \<Rightarrow> groups \<Rightarrow> (cursor \<times> groups) list" where
  "one_char ok p g =
     (case snd p of [] \<Rightarrow> [] | c # cs \<Rightarrow> if ok c then [((Suc (fst p), cs), g)] else [])"

function rmatch :: "regex \<Rightarrow> cursor \<Rightarrow> groups \<Rightarrow> (cursor \<times> groups) list" where
  "rmatch (Lit c) p g = one_char (\<lambda>x. x = c) p g"
| "rmatch Dot p g = one_char (\<lambda>x. x \<noteq> CHR 0x0A) p g"
| "rmatch Digit p g = one_char is_digit p g"
| "rmatch Space p g = one_char is_space p g"
| "rmatch (OneOf cs) p g = one_char (\<lambda>x. x \<in> set cs) p g"
| "rmatch (NoneOf cs) p g = one_char (\<lambda>x. x \<notin> set cs) p g"
| "rmatch Bol p g = (if fst p = 0 then [(p, g)] else [])"
| "rmatch Eol p g = (if snd p = [] \<or> snd p = [CHR 0x0A] then [(p, g)] else [])"
| "rmatch Eps p g = [(p, g)]"
| "rmatch (Seq a b) p g = concat (map (\<lambda>r. rmatch b (fst r) (snd r)) (rmatch a p g))"
| "rmatch (Alt a b) p g = rmatch a p g @ rmatch b p g"
| "rmatch (Star a) p g =
     concat (map (\<lambda>r. if length (snd (fst r)) < length (snd p)
                       then rmatch (Star a) (fst r) (snd r) else [])
                 (rmatch a p g)) @ [(p, g)]"
| "rmatch (Opt a) p g = rmatch a p g @ [(p, g)]"
| "rmatch (Grp k a) p g =
     map (\<lambda>r. (fst r, (snd r)(k \<mapsto> take (fst (fst r) - fst p) (snd p)))) (rmatch a p g)"
| "rmatch (Look a) p g = (case rmatch a p g of [] \<Rightarrow> [] | r # _ \<Rightarrow> [(p, snd r)])"
| "rmatch (NLook a) p g = (case rmatch a p g of [] \<Rightarrow> [(p, g)] | _ # _ \<Rightarrow> [])"
  by pat_completeness auto
termination
  by (relation "measures [\<lambda>(r, p, g). size r, \<lambda>(r, p, g). length (snd p)]") auto

text \<open>\<^verbatim>\<open>pattern.search\<close> tries every start position from the left, \<^verbatim>\<open>pattern.match\<close>
  only the first.\<close>

fun scan :: "regex \<Rightarrow> cursor \<Rightarrow> groups option" where
  "scan r (n, s) =
     (case rmatch r (n, s) Map.empty of
        x # _ \<Rightarrow> Some (snd x)
      | [] \<Rightarrow> (case s of [] \<Rightarrow> None | _ # cs \<Rightarrow> scan r (Suc n, cs)))"

definition re_search :: "regex \<Rightarrow> string \<Rightarrow> groups option" where
  "re_search r s = scan r (0, s)"

definition re_match :: "regex \<Rightarrow> string \<Rightarrow> groups option" where
  "re_match r s = (case rmatch r (0, s) Map.empty of x # _ \<Rightarrow> Some (snd x) | [] \<Rightarrow> None)"

fun seqs :: "regex list \<Rightarrow> regex" where
  "seqs [] = Eps"
| "seqs [r] = r"
| "seqs (r # rs) = Seq r (seqs rs)"

definition lits :: "string \<Rightarrow> regex" where
  "lits s = seqs (map Lit s)"

definition Plus :: "regex \<Rightarrow> regex" where
  "Plus r = Seq r (Star r)"

subsection \<open>Python's string and number conversions\<close>

datatype exn = TypeError | ValueError | KeyError | AttributeError | GracefulException

text \<open>\<^verbatim>\<open>s.strip(cs)\<close> removes the characters of \<open>cs\<close> from both ends.\<close>

definition py_strip :: "string \<Rightarrow> string \<Rightarrow> string" where
  "py_strip cs s = rev (dropWhile (\<lambda>c. c \<in> set cs) (rev (dropWhile (\<lambda>c. c \<in> set cs) s)))"

definition upper_char :: "char \<Rightarrow> char" where
  "upper_char c =
     (case map_of (zip ''abcdefghijklmnopqrstuvwxyz'' ''ABCDEFGHIJKLMNOPQRSTUVWXYZ'') c of
        Some u \<Rightarrow> u | None \<Rightarrow> c)"

definition lower_char :: "char \<Rightarrow> char" where
  "lower_char c =
     (case map_of (zip ''ABCDEFGHIJKLMNOPQRSTUVWXYZ'' ''abcdefghijklmnopqrstuvwxyz'') c of
        Some l \<Rightarrow> l | None \<Rightarrow> c)"

definition py_upper :: "string \<Rightarrow> string" where
  "py_upper s = map upper_char s"

definition py_lower :: "string \<Rightarrow> string" where
  "py_lower s = map lower_char s"

text \<open>\<^verbatim>\<open>sub in s\<close> for strings; \<^verbatim>\<open>len(re.findall(sub, s)) > 0\<close> for a pattern without
  metacharacters is the same test.\<close>

fun contains :: "string \<Rightarrow> string \<Rightarrow> bool" where
  "contains sub [] = (sub = [])"
| "contains sub (c # cs) = (take (length sub) (c # cs) = sub \<or> contains sub cs)"

definition digit_val :: "char \<Rightarrow> nat" where
  "digit_val c = length (takeWhile (\<lambda>d. d \<noteq> c) ''0123456789'')"

definition nat_of_digits :: "string \<Rightarrow> nat" where
  "nat_of_digits ds = foldl (\<lambda>n c. 10 * n + digit_val c) 0 ds"

text \<open>\<^verbatim>\<open>int(s)\<close> on a string of digits; \<open>None\<close> stands for the \<^verbatim>\<open>ValueError\<close>. The program
  applies it to captures of \<^verbatim>\<open>\d+\<close> and to tool names it made with \<^verbatim>\<open>str(int(...))\<close>.\<close>

definition py_int :: "string \<Rightarrow> nat option" where
  "py_int ds = (if ds \<noteq> [] \<and> (\<forall>c\<in>set ds. is_digit c) then Some (nat_of_digits ds) else None)"

fun py_str :: "nat \<Rightarrow> string" where
  "py_str n = (if n < 10 then [''0123456789'' ! n]
               else py_str (n div 10) @ [''0123456789'' ! (n mod 10)])"

declare py_str.simps [simp del]

text \<open>
  \<^verbatim>\<open>float(s)\<close> on a string: an optional sign, then digits with an optional point (at
  least one digit), then an optional exponent; single underscores may separate digits.
  \<open>None\<close> stands for the \<^verbatim>\<open>ValueError\<close>. The blanks that \<^verbatim>\<open>float\<close> strips and the
  words \<^verbatim>\<open>inf\<close> and \<^verbatim>\<open>nan\<close> cannot occur in the captures this program converts.
\<close>

fun digit_tail :: "string \<Rightarrow> string \<times> string" where
  "digit_tail [] = ([], [])"
| "digit_tail [c] = (if is_digit c then ([c], []) else ([], [c]))"
| "digit_tail (c # d # cs) =
     (if is_digit c then (c # fst (digit_tail (d # cs)), snd (digit_tail (d # cs)))
      else if c = CHR ''_'' \<and> is_digit d then (d # fst (digit_tail cs), snd (digit_tail cs))
      else ([], c # d # cs))"

definition digitpart :: "string \<Rightarrow> (string \<times> string) option" where
  "digitpart s =
     (case s of [] \<Rightarrow> None
      | c # cs \<Rightarrow> if is_digit c then Some (c # fst (digit_tail cs), snd (digit_tail cs)) else None)"

definition take_sign :: "string \<Rightarrow> bool \<times> string" where
  "take_sign s =
     (case s of [] \<Rightarrow> (False, [])
      | c # cs \<Rightarrow> if c = CHR ''-'' then (True, cs) else if c = CHR ''+'' then (False, cs)
                  else (False, c # cs))"

definition py_exponent :: "string \<Rightarrow> int option" where
  "py_exponent s =
     (case s of [] \<Rightarrow> Some 0
      | c # cs \<Rightarrow>
          if c = CHR ''e'' \<or> c = CHR ''E'' then
            (case digitpart (snd (take_sign cs)) of
               Some (ds, []) \<Rightarrow>
                 Some (if fst (take_sign cs) then - int (nat_of_digits ds) else int (nat_of_digits ds))
             | _ \<Rightarrow> None)
          else None)"

definition py_mantissa :: "string \<Rightarrow> (string \<times> string \<times> string) option" where
  "py_mantissa s =
     (case digitpart s of
        Some (ip, r) \<Rightarrow>
          (case r of
             c # r2 \<Rightarrow>
               if c = CHR ''.'' then
                 (case digitpart r2 of Some (fp, r3) \<Rightarrow> Some (ip, fp, r3) | None \<Rightarrow> Some (ip, [], r2))
               else Some (ip, [], r)
           | [] \<Rightarrow> Some (ip, [], []))
      | None \<Rightarrow>
          (case s of
             c # r2 \<Rightarrow>
               if c = CHR ''.'' then
                 (case digitpart r2 of Some (fp, r3) \<Rightarrow> Some ([], fp, r3) | None \<Rightarrow> None)
               else None
           | [] \<Rightarrow> None))"

definition py_float :: "string \<Rightarrow> real option" where
  "py_float s =
     (case py_mantissa (snd (take_sign s)) of
        None \<Rightarrow> None
      | Some (ip, fp, r) \<Rightarrow>
          (case py_exponent r of
             None \<Rightarrow> None
           | Some e \<Rightarrow>
               Some ((if fst (take_sign s) then -1 else 1) *
                     (real (nat_of_digits (ip @ fp)) * 10 powi (e - int (length fp))))))"

text \<open>\<^verbatim>\<open>float(m.group(k))\<close>: a group that did not take part in the match is \<^verbatim>\<open>None\<close>,
  and \<^verbatim>\<open>float(None)\<close> raises \<^verbatim>\<open>TypeError\<close>.\<close>

definition float_of_group :: "string option \<Rightarrow> exn + real" where
  "float_of_group so =
     (case so of None \<Rightarrow> Inl TypeError
      | Some s \<Rightarrow> (case py_float s of None \<Rightarrow> Inl ValueError | Some v \<Rightarrow> Inr v))"

text \<open>\<^verbatim>\<open>int(m.group(k))\<close>, likewise.\<close>

definition int_of_group :: "string option \<Rightarrow> exn + nat" where
  "int_of_group so =
     (case so of None \<Rightarrow> Inl TypeError
      | Some s \<Rightarrow> (case py_int s of None \<Rightarrow> Inl ValueError | Some n \<Rightarrow> Inr n))"

text \<open>\<^verbatim>\<open>d[k]\<close> for a dictionary literal \<open>d\<close> and a group \<open>k\<close>: a missing key raises
  \<^verbatim>\<open>KeyError\<close>.\<close>

definition dict_get :: "(string \<times> string) list \<Rightarrow> string option \<Rightarrow> exn + string" where
  "dict_get d ko =
     (case ko of None \<Rightarrow> Inl KeyError
      | Some k \<Rightarrow> (case map_of d k of None \<Rightarrow> Inl KeyError | Some v \<Rightarrow> Inr v))"

subsection \<open>The data of an Excellon object\<close>

type_synonym point = "real \<times> real"

text \<open>
  Shapes made by Shapely: \<open>Buffer_point p r n\<close> is \<^verbatim>\<open>Point(p).buffer(r, n)\<close>,
  \<open>Buffer_line p q r n\<close> is \<^verbatim>\<open>LineString([p, q]).buffer(r, n)\<close> and \<open>Scaled g xf yf o\<close> is
  \<^verbatim>\<open>affinity.scale(g, xf, yf, origin=o)\<close> of a shape that is not a point.
\<close>

datatype geom =
    Buffer_point point real int
  | Buffer_line point point real int
  | Scaled geom real real point

text \<open>An entry of \<^verbatim>\<open>self.tools\<close>: the keys \<^verbatim>\<open>'C'\<close> and \<^verbatim>\<open>'solid_geometry'\<close>.\<close>

record tool =
  C :: real
  tool_geometry :: "geom list"

text \<open>An entry of \<^verbatim>\<open>self.drills\<close>: the keys \<^verbatim>\<open>'point'\<close> and \<^verbatim>\<open>'tool'\<close>.\<close>

record drill =
  drill_point :: point
  drill_tool :: string

text \<open>An entry of \<^verbatim>\<open>self.slots\<close>: the keys \<^verbatim>\<open>'start'\<close>, \<^verbatim>\<open>'stop'\<close> and \<^verbatim>\<open>'tool'\<close>.\<close>

record slot =
  slot_start :: point
  slot_stop :: point
  slot_tool :: string

text \<open>The messages sent through \<^verbatim>\<open>self.app.inform.emit\<close>.\<close>

datatype message =
    Gcode_mark string
  | No_tool_diameter string
  | Parser_error nat string
  | Drill_skipped

text \<open>
  The attributes of the object. \<open>tools\<close> is the dictionary in insertion order;
  \<open>excellon_drills\<close> is the entry \<^verbatim>\<open>self.defaults['excellon_drills']\<close>; \<open>inform\<close> and
  \<open>abort_flag\<close> belong to \<^verbatim>\<open>self.app\<close>. The four digit counts of the formats are
  numbers here (the source keeps them as digit strings or integers and converts
  them with \<^verbatim>\<open>float\<close> where they are used).
\<close>

record excellon =
  tools :: "(string \<times> tool) list"
  drills :: "drill list"
  slots :: "slot list"
  solid_geometry :: "geom list"
  source_file :: string
  routing_flag :: int
  match_routing_start :: "string option"
  match_routing_stop :: "string option"
  units :: string
  zeros :: "string option"
  toolless_diam :: real
  diameterless :: bool
  excellon_format_upper_in :: nat
  excellon_format_lower_in :: nat
  excellon_format_upper_mm :: nat
  excellon_format_lower_mm :: nat
  excellon_units :: string
  excellon_format :: "string option"
  geo_steps_per_circle :: int
  file_units_factor :: "real option"
  geo_len :: nat
  old_disp_number :: nat
  el_count :: nat
  excellon_drills :: "bool option"
  inform :: "message list"
  abort_flag :: bool

subsection \<open>parse_number\<close>

definition leadingzeros_re :: regex where
  "leadingzeros_re =
     seqs [Bol, Opt (OneOf ''-+''), Grp 1 (Star (Lit CHR ''0'')), Grp 2 (Star Digit)]"

text \<open>
  The result is the exception that escapes, or the value returned: \<open>None\<close> when the
  \<^verbatim>\<open>try\<close> block caught an exception. \<^verbatim>\<open>leadingzeros_re.search(None)\<close> raises
  \<^verbatim>\<open>TypeError\<close> before the \<^verbatim>\<open>try\<close>, and so would \<^verbatim>\<open>len\<close> of a group that took no
  part in the match.
\<close>

definition parse_number :: "excellon \<Rightarrow> string option \<Rightarrow> exn + real option" where
  "parse_number e number_str_opt =
     (case number_str_opt of
        None \<Rightarrow> Inl TypeError
      | Some number_str \<Rightarrow>
          (case re_search leadingzeros_re number_str of
             None \<Rightarrow> Inl AttributeError
           | Some m \<Rightarrow>
               (case (m 1, m 2) of
                  (Some g1, Some g2) \<Rightarrow>
                    (let nr_length = length g1 + length g2 in
                     case py_float number_str of
                       None \<Rightarrow> Inr None
                     | Some v \<Rightarrow>
                         if zeros e = Some ''L'' \<or> zeros e = Some ''LZ'' then
                           (if py_lower (units e) = ''in''
                            then Inr (Some (v / 10 powi (int nr_length - int (excellon_format_upper_in e))))
                            else Inr (Some (v / 10 powi (int nr_length - int (excellon_format_upper_mm e)))))
                         else
                           (if py_lower (units e) = ''in''
                            then Inr (Some (v / 10 powi (int (excellon_format_lower_in e))))
                            else Inr (Some (v / 10 powi (int (excellon_format_lower_mm e))))))
                | _ \<Rightarrow> Inl TypeError)))"

subsection \<open>create_geometry\<close>

text \<open>\<^verbatim>\<open>int(int(self.geo_steps_per_circle) / 4)\<close>: the quotient truncated towards zero.\<close>

definition resolution :: "excellon \<Rightarrow> int" where
  "resolution e =
     (if 0 \<le> geo_steps_per_circle e then geo_steps_per_circle e div 4
      else - ((- geo_steps_per_circle e) div 4))"

text \<open>
  The loop over \<^verbatim>\<open>self.drills\<close>. A drill without a tool is skipped with a message (the
  test \<^verbatim>\<open>drill['tool'] is ''\<close> is taken as equality with the empty string). The lookup
  \<^verbatim>\<open>self.tools[drill['tool']]\<close> of a key that is not in the dictionary raises
  \<^verbatim>\<open>KeyError\<close>, which ends the loop.
\<close>

fun drills_geometry :: "drill list \<Rightarrow> excellon \<Rightarrow> exn option \<times> excellon" where
  "drills_geometry [] e = (None, e)"
| "drills_geometry (d # ds) e =
     (if drill_tool d = [] then drills_geometry ds (e\<lparr>inform := inform e @ [Drill_skipped]\<rparr>)
      else
        (case map_of (tools e) (drill_tool d) of
           None \<Rightarrow> (Some KeyError, e)
         | Some t \<Rightarrow>
             (let tooldia = C t;
                  poly = Buffer_point (drill_point d) (tooldia / 2) (resolution e)
              in drills_geometry ds
                   (e\<lparr>solid_geometry := solid_geometry e @ [poly],
                      tools := AList.map_entry (drill_tool d)
                                 (\<lambda>t. t\<lparr>tool_geometry := tool_geometry t @ [poly]\<rparr>) (tools e)\<rparr>))))"

text \<open>The loop over \<^verbatim>\<open>self.slots\<close>; it has no test for the empty tool name.\<close>

fun slots_geometry :: "slot list \<Rightarrow> excellon \<Rightarrow> exn option \<times> excellon" where
  "slots_geometry [] e = (None, e)"
| "slots_geometry (sl # sls) e =
     (case map_of (tools e) (slot_tool sl) of
        None \<Rightarrow> (Some KeyError, e)
      | Some t \<Rightarrow>
          (let slot_tooldia = C t;
               poly = Buffer_line (slot_start sl) (slot_stop sl) (slot_tooldia / 2) (resolution e)
           in slots_geometry sls
                (e\<lparr>solid_geometry := solid_geometry e @ [poly],
                   tools := AList.map_entry (slot_tool sl)
                              (\<lambda>t. t\<lparr>tool_geometry := tool_geometry t @ [poly]\<rparr>) (tools e)\<rparr>)))"

definition clear_tools :: "(string \<times> tool) list \<Rightarrow> (string \<times> tool) list" where
  "clear_tools ts = map (\<lambda>(name, t). (name, t\<lparr>tool_geometry := []\<rparr>)) ts"

text \<open>The value returned is \<^verbatim>\<open>None\<close> or \<^verbatim>\<open>"fail"\<close>; no exception leaves the method.\<close>

definition create_geometry :: "excellon \<Rightarrow> string option \<times> excellon" where
  "create_geometry e =
     (let e1 = e\<lparr>solid_geometry := []\<rparr>;
          e2 = e1\<lparr>tools := clear_tools (tools e1)\<rparr>
      in case drills_geometry (drills e2) e2 of
           (Some x, e3) \<Rightarrow> (Some ''fail'', e3)
         | (None, e3) \<Rightarrow>
             (case slots_geometry (slots e3) e3 of
                (Some x, e4) \<Rightarrow> (Some ''fail'', e4)
              | (None, e4) \<Rightarrow> (None, e4)))"

subsection \<open>scale and convert_units\<close>

text \<open>\<^verbatim>\<open>affinity.scale\<close> of a point: the affine map
  \<open>x \<mapsto> xfact * x + (x0 - x0 * xfact)\<close> on each axis.\<close>

definition scale_point :: "real \<Rightarrow> real \<Rightarrow> point \<Rightarrow> point \<Rightarrow> point" where
  "scale_point xfactor yfactor origin p =
     (xfactor * fst p + (fst origin - fst origin * xfactor),
      yfactor * snd p + (snd origin - snd origin * yfactor))"

definition scale_geom :: "real \<Rightarrow> real \<Rightarrow> point \<Rightarrow> geom list \<Rightarrow> geom list" where
  "scale_geom xfactor yfactor origin obj = map (\<lambda>g. Scaled g xfactor yfactor origin) obj"

text \<open>
  \<^verbatim>\<open>scale(self, xfactor, yfactor=None, point=None)\<close>. The three attributes of the
  progress display end at the number of drills and at 100 percent (0 when there is
  no drill).
\<close>

definition scale :: "excellon \<Rightarrow> real \<Rightarrow> real option \<Rightarrow> point option \<Rightarrow> excellon" where
  "scale e xfactor yfactor_opt point_opt =
     (let yfactor = (case yfactor_opt of None \<Rightarrow> xfactor | Some y \<Rightarrow> y);
          origin = (case point_opt of None \<Rightarrow> (0, 0) | Some p \<Rightarrow> p)
      in if xfactor = 0 \<and> yfactor = 0 then e
         else
           (let e1 = e\<lparr>geo_len := length (drills e),
                       old_disp_number := (if drills e = [] then 0 else 100),
                       el_count := length (drills e)\<rparr>;
                e2 = e1\<lparr>drills := map (\<lambda>d. d\<lparr>drill_point :=
                                         scale_point xfactor yfactor origin (drill_point d)\<rparr>)
                                       (drills e1)\<rparr>;
                e3 = e2\<lparr>tools := map (\<lambda>(name, t). (name, t\<lparr>tool_geometry :=
                                         scale_geom xfactor yfactor origin (tool_geometry t)\<rparr>))
                                      (tools e2)\<rparr>;
                e4 = e3\<lparr>slots := map (\<lambda>s. s\<lparr>slot_stop :=
                                         scale_point xfactor yfactor origin (slot_stop s),
                                       slot_start :=
                                         scale_point xfactor yfactor origin (slot_start s)\<rparr>)
                                      (slots e3)\<rparr>
            in snd (create_geometry e4)))"

definition convert_units :: "excellon \<Rightarrow> string \<Rightarrow> real \<times> excellon" where
  "convert_units e obj_units =
     (let factor = (if py_upper obj_units = py_upper (units e) then 1
                    else if py_upper obj_units = ''MM'' then 25.4
                    else if py_upper obj_units = ''IN'' then 1 / 25.4
                    else 1);
          e1 = e\<lparr>units := obj_units\<rparr>;
          e2 = scale e1 factor (Some factor) None;
          e3 = e2\<lparr>file_units_factor := Some factor\<rparr>;
          e4 = e3\<lparr>tools := map (\<lambda>(tname, t). (tname, t\<lparr>C := C t * factor\<rparr>)) (tools e3)\<rparr>
      in (factor, snd (create_geometry e4)))"

subsection \<open>The patterns compiled in the constructor\<close>

text \<open>Each pattern follows its source text, which is quoted before it.\<close>

text \<open>\<^verbatim>\<open>hbegin_re = ^M48$\<close>\<close>

definition hbegin_re :: regex where
  "hbegin_re = seqs [Bol, lits ''M48'', Eol]"

text \<open>\<^verbatim>\<open>allegro_hbegin_re = \;\s*(HEADER)\<close>\<close>

definition allegro_hbegin_re :: regex where
  "allegro_hbegin_re = seqs [Lit CHR '';'', Star Space, Grp 1 (lits ''HEADER'')]"

text \<open>\<^verbatim>\<open>hend_re = ^(?:M95|%)$\<close>\<close>

definition hend_re :: regex where
  "hend_re = seqs [Bol, Alt (lits ''M95'') (Lit CHR ''%''), Eol]"

text \<open>\<^verbatim>\<open>units_re = ^(INCH|METRIC)(?:,([TL])Z)?,?(\d*\.\d+)?.*$\<close>\<close>

definition units_re :: regex where
  "units_re =
     seqs [Bol, Grp 1 (Alt (lits ''INCH'') (lits ''METRIC'')),
           Opt (seqs [Lit CHR '','', Grp 2 (OneOf ''TL''), Lit CHR ''Z'']),
           Opt (Lit CHR '',''),
           Opt (Grp 3 (seqs [Star Digit, Lit CHR ''.'', Plus Digit])),
           Star Dot, Eol]"

text \<open>\<^verbatim>\<open>\d*\.?\d*\<close>, the number after a letter of a tool definition.\<close>

definition tool_number :: regex where
  "tool_number = seqs [Star Digit, Opt (Lit CHR ''.''), Star Digit]"

text \<open>\<^verbatim>\<open>toolset_re = ^T(\d+)(?=.*C,?(\d*\.?\d*))?(?=.*F(\d*\.?\d*))?(?=.*S(\d*\.?\d*))?\<close>
  \<^verbatim>\<open>(?=.*B(\d*\.?\d*))?(?=.*H(\d*\.?\d*))?(?=.*Z([-\+]?\d*\.?\d*))?[CFSBHT]\<close>\<close>

definition toolset_re :: regex where
  "toolset_re =
     seqs [Bol, Lit CHR ''T'', Grp 1 (Plus Digit),
           Opt (Look (seqs [Star Dot, Lit CHR ''C'', Opt (Lit CHR '',''), Grp 2 tool_number])),
           Opt (Look (seqs [Star Dot, Lit CHR ''F'', Grp 3 tool_number])),
           Opt (Look (seqs [Star Dot, Lit CHR ''S'', Grp 4 tool_number])),
           Opt (Look (seqs [Star Dot, Lit CHR ''B'', Grp 5 tool_number])),
           Opt (Look (seqs [Star Dot, Lit CHR ''H'', Grp 6 tool_number])),
           Opt (Look (seqs [Star Dot, Lit CHR ''Z'',
                            Grp 7 (Seq (Opt (OneOf ''-+'')) tool_number)])),
           OneOf ''CFSBHT'']"

text \<open>\<^verbatim>\<open>detect_gcode_re = ^G2([01])$\<close>\<close>

definition detect_gcode_re :: regex where
  "detect_gcode_re = seqs [Bol, lits ''G2'', Grp 1 (OneOf ''01''), Eol]"

text \<open>\<^verbatim>\<open>toolsel_re = ^T(\d+)\<close>\<close>

definition toolsel_re :: regex where
  "toolsel_re = seqs [Bol, Lit CHR ''T'', Grp 1 (Plus Digit)]"

text \<open>\<^verbatim>\<open>toolset_hl_re = ^T(\d+)(?:.?C(\d+\.?\d*))?\<close>\<close>

definition toolset_hl_re :: regex where
  "toolset_hl_re =
     seqs [Bol, Lit CHR ''T'', Grp 1 (Plus Digit),
           Opt (seqs [Opt Dot, Lit CHR ''C'',
                      Grp 2 (seqs [Plus Digit, Opt (Lit CHR ''.''), Star Digit])])]"

text \<open>\<^verbatim>\<open>comm_re = ^;(.*)$\<close>\<close>

definition comm_re :: regex where
  "comm_re = seqs [Bol, Lit CHR '';'', Grp 1 (Star Dot), Eol]"

text \<open>\<^verbatim>\<open>absinc_re = ^G9([01])$\<close>\<close>

definition absinc_re :: regex where
  "absinc_re = seqs [Bol, lits ''G9'', Grp 1 (OneOf ''01''), Eol]"

text \<open>\<^verbatim>\<open>meas_re = ^M7([12])$\<close>\<close>

definition meas_re :: regex where
  "meas_re = seqs [Bol, lits ''M7'', Grp 1 (OneOf ''12''), Eol]"

text \<open>\<^verbatim>\<open>coordsperiod_re = (?=.*X([-\+]?\d*\.\d*))?(?=.*Y([-\+]?\d*\.\d*))?[XY]\<close>\<close>

definition coordsperiod_re :: regex where
  "coordsperiod_re =
     seqs [Opt (Look (seqs [Star Dot, Lit CHR ''X'',
                            Grp 1 (seqs [Opt (OneOf ''-+''), Star Digit, Lit CHR ''.'', Star Digit])])),
           Opt (Look (seqs [Star Dot, Lit CHR ''Y'',
                            Grp 2 (seqs [Opt (OneOf ''-+''), Star Digit, Lit CHR ''.'', Star Digit])])),
           OneOf ''XY'']"

text \<open>\<^verbatim>\<open>coordsnoperiod_re = (?!.*\.)(?=.*X([-\+]?\d*))?(?=.*Y([-\+]?\d*))?[XY]\<close>\<close>

definition coordsnoperiod_re :: regex where
  "coordsnoperiod_re =
     seqs [NLook (Seq (Star Dot) (Lit CHR ''.'')),
           Opt (Look (seqs [Star Dot, Lit CHR ''X'', Grp 1 (Seq (Opt (OneOf ''-+'')) (Star Digit))])),
           Opt (Look (seqs [Star Dot, Lit CHR ''Y'', Grp 2 (Seq (Opt (OneOf ''-+'')) (Star Digit))])),
           OneOf ''XY'']"

text \<open>\<^verbatim>\<open>slots_re = ^([^G]+)G85(.*)$\<close>\<close>

definition slots_re :: regex where
  "slots_re = seqs [Bol, Grp 1 (Plus (NoneOf ''G'')), lits ''G85'', Grp 2 (Star Dot), Eol]"

text \<open>\<^verbatim>\<open>stop_re = ^((G04)|(M09)|(M06)|(M00)|(M30))\<close>\<close>

definition stop_re :: regex where
  "stop_re =
     seqs [Bol, Grp 1 (Alt (Grp 2 (lits ''G04'')) (Alt (Grp 3 (lits ''M09''))
                      (Alt (Grp 4 (lits ''M06'')) (Alt (Grp 5 (lits ''M00'')) (Grp 6 (lits ''M30''))))))]"

text \<open>\<^verbatim>\<open>tool_units_re = (\;\s*Holesize \d+.\s*\=\s*(\d+.\d+).*(MILS|MM))\<close>\<close>

definition tool_units_re :: regex where
  "tool_units_re =
     Grp 1 (seqs [Lit CHR '';'', Star Space, lits ''Holesize '', Plus Digit, Dot, Star Space,
                  Lit CHR ''='', Star Space, Grp 2 (seqs [Plus Digit, Dot, Plus Digit]),
                  Star Dot, Grp 3 (Alt (lits ''MILS'') (lits ''MM''))])"

text \<open>\<^verbatim>\<open>altium_format = ^;\s*(?:FILE_FORMAT)?(?:Format)?[=|:]\s*(\d+)[:|.](\d+).*$\<close>\<close>

definition altium_format :: regex where
  "altium_format =
     seqs [Bol, Lit CHR '';'', Star Space, Opt (lits ''FILE_FORMAT''), Opt (lits ''Format''),
           OneOf ''=|:'', Star Space, Grp 1 (Plus Digit), OneOf '':|.'', Grp 2 (Plus Digit),
           Star Dot, Eol]"

text \<open>\<^verbatim>\<open>repeat_re = R(\d+)\<close>\<close>

definition repeat_re :: regex where
  "repeat_re = seqs [Lit CHR ''R'', Grp 1 (Plus Digit)]"

text \<open>\<^verbatim>\<open>[LT]Z\<close>, searched in a header line; group 0 is the whole match.\<close>

definition zeros_re :: regex where
  "zeros_re = Grp 0 (Seq (OneOf ''LT'') (Lit CHR ''Z''))"

subsection \<open>parse_lines: the state of the loop\<close>

text \<open>
  The local variables of \<^verbatim>\<open>parse_lines\<close>. \<open>repeating_x\<close> and \<open>repeating_y\<close> hold a float,
  \<^verbatim>\<open>None\<close> or the integer 0, which is \<open>Some 0\<close> here. \<open>slot_start_x\<close> and \<open>slot_start_y\<close> are
  not bound before their first assignment; \<open>None\<close> stands both for that and for the
  value \<^verbatim>\<open>None\<close>, since the one place that reads them, \<^verbatim>\<open>Point(slot_start_x, slot_start_y)\<close>,
  raises in both cases. \<open>slot_stop_x\<close> and \<open>slot_stop_y\<close> are only read in the iteration
  that assigns them and are not part of the state.
\<close>

record locals =
  current_tool :: string
  in_header :: bool
  headerless :: bool
  current_x :: "real option"
  current_y :: "real option"
  slot_current_x :: "real option"
  slot_current_y :: "real option"
  name_tool :: nat
  allegro_warning :: bool
  line_units_found :: bool
  repeating_x :: "real option"
  repeating_y :: "real option"
  repeat :: nat
  line_units :: string
  line_num :: nat
  slot_start_x :: "real option"
  slot_start_y :: "real option"

definition new_locals :: locals where
  "new_locals =
     \<lparr>current_tool = [], in_header = False, headerless = False,
      current_x = None, current_y = None, slot_current_x = None, slot_current_y = None,
      name_tool = 0, allegro_warning = False, line_units_found = False,
      repeating_x = Some 0, repeating_y = Some 0, repeat = 0, line_units = [],
      line_num = 0, slot_start_x = None, slot_start_y = None\<rparr>"

type_synonym pstate = "excellon \<times> locals"

text \<open>
  How a piece of the loop body ends: it falls through to the code after it (\<open>Next\<close>),
  executes \<^verbatim>\<open>continue\<close>, executes \<^verbatim>\<open>return\<close>, or raises an exception that the piece does
  not catch. Each carries the state reached.
\<close>

datatype 'a flow = Next 'a | Continue 'a | Return 'a | Raise exn 'a

definition next_stage :: "pstate flow \<Rightarrow> (excellon \<Rightarrow> locals \<Rightarrow> pstate flow) \<Rightarrow> pstate flow" where
  "next_stage f g = (case f of Next s \<Rightarrow> g (fst s) (snd s) | other \<Rightarrow> other)"

subsection \<open>parse_lines: units, header and comments\<close>

text \<open>The lines after a match of \<^verbatim>\<open>units_re\<close>; the source has them twice, inside and
  outside the header.\<close>

definition units_directive :: "excellon \<Rightarrow> locals \<Rightarrow> groups \<Rightarrow> pstate flow" where
  "units_directive e l m =
     (case dict_get [(''METRIC'', ''MM''), (''INCH'', ''IN'')] (m 1) of
        Inl x \<Rightarrow> Raise x (e, l)
      | Inr u \<Rightarrow>
          (let e1 = e\<lparr>units := u, zeros := m 2, excellon_format := m 3\<rparr>;
               e2 = (case m 3 of
                       None \<Rightarrow> e1
                     | Some f \<Rightarrow>
                         if f = [] then e1
                         else
                           (let upper = length (takeWhile (\<lambda>c. c \<noteq> CHR ''.'') f);
                                lower = length (drop 1 (dropWhile (\<lambda>c. c \<noteq> CHR ''.'') f))
                            in if u = ''MM''
                               then e1\<lparr>excellon_format_upper_mm := upper,
                                       excellon_format_lower_mm := lower\<rparr>
                               else e1\<lparr>excellon_format_upper_in := upper,
                                       excellon_format_lower_in := lower\<rparr>))
           in Continue (snd (convert_units e2 (units e2)), l)))"

text \<open>A comment with the hole size table of Allegro: the units, once.\<close>

definition holesize_units :: "excellon \<Rightarrow> locals \<Rightarrow> groups \<Rightarrow> pstate flow" where
  "holesize_units e l m =
     (if line_units_found l then Next (e, l)
      else
        (case m 3 of
           None \<Rightarrow> Raise KeyError (e, l\<lparr>line_units_found := True\<rparr>)
         | Some lu \<Rightarrow>
             (case dict_get [(''MILS'', ''IN''), (''MM'', ''MM'')] (Some lu) of
                Inl x \<Rightarrow> Raise x (e, l\<lparr>line_units_found := True, line_units := lu\<rparr>)
              | Inr u \<Rightarrow>
                  Next (snd (convert_units e u), l\<lparr>line_units_found := True, line_units := lu\<rparr>))))"

text \<open>The same comment: the tool.\<close>

definition holesize_tool :: "excellon \<Rightarrow> locals \<Rightarrow> groups \<Rightarrow> pstate flow" where
  "holesize_tool e l m =
     (case m 2 of
        None \<Rightarrow> Next (e, l)
      | Some g2 \<Rightarrow>
          if g2 = [] then Next (e, l)
          else
            (let l1 = l\<lparr>name_tool := name_tool l + 1\<rparr> in
             case float_of_group (Some g2) of
               Inl x \<Rightarrow> Raise x (e, l1)
             | Inr v \<Rightarrow>
                 (let spec = \<lparr>C = (if line_units l1 = ''MILS'' then v / 1000 else v),
                              tool_geometry = []\<rparr>
                  in Continue (e\<lparr>tools := AList.update (py_str (name_tool l1)) spec (tools e)\<rparr>,
                               l1))))"

text \<open>The format that Altium and Sprint Layout write in a comment. Both groups are
  mandatory parts of the pattern; the digit strings are stored as numbers.\<close>

definition altium_comment :: "excellon \<Rightarrow> locals \<Rightarrow> string \<Rightarrow> pstate flow" where
  "altium_comment e l eline =
     (case re_search altium_format eline of
        None \<Rightarrow> Next (e, l)
      | Some m \<Rightarrow>
          (case (m 1, m 2) of
             (Some u, Some lo) \<Rightarrow>
               Continue (e\<lparr>excellon_format_upper_mm := nat_of_digits u,
                           excellon_format_lower_mm := nat_of_digits lo,
                           excellon_format_upper_in := nat_of_digits u,
                           excellon_format_lower_in := nat_of_digits lo\<rparr>, l)
           | _ \<Rightarrow> Continue (e, l)))"

text \<open>The branch taken when \<^verbatim>\<open>comm_re\<close> matches.\<close>

definition comment_line :: "excellon \<Rightarrow> locals \<Rightarrow> string \<Rightarrow> pstate flow" where
  "comment_line e l eline =
     next_stage
       (case re_search tool_units_re eline of
          None \<Rightarrow> Next (e, l)
        | Some m \<Rightarrow> next_stage (holesize_units e l m) (\<lambda>e1 l1. holesize_tool e1 l1 m))
       (\<lambda>e2 l2. altium_comment e2 l2 eline)"

text \<open>The branch taken when \<^verbatim>\<open>hend_re\<close> matches outside a comment. The conversion is
  inside a \<^verbatim>\<open>try\<close> that swallows the \<^verbatim>\<open>KeyError\<close> of the dictionary.\<close>

definition header_end :: "excellon \<Rightarrow> locals \<Rightarrow> pstate flow" where
  "header_end e l =
     (let headerless_now = (\<not> in_header l \<or> tools e = []);
          e1 = (if headerless_now then
                  (case dict_get [(''INCH'', ''IN''), (''METRIC'', ''MM'')] (Some (excellon_units e)) of
                     Inl x \<Rightarrow> e
                   | Inr u \<Rightarrow> snd (convert_units e u))
                else e);
          l1 = (if headerless_now then l\<lparr>headerless := True\<rparr> else l);
          l2 = l1\<lparr>in_header := False\<rparr>;
          l3 = (if allegro_warning l2 then l2\<lparr>name_tool := 0\<rparr> else l2)
      in Continue (e1, l3))"

text \<open>\<^verbatim>\<open>M71\<close> and \<^verbatim>\<open>M72\<close>.\<close>

definition measuring_mode :: "excellon \<Rightarrow> locals \<Rightarrow> string \<Rightarrow> pstate flow" where
  "measuring_mode e l eline =
     (case re_match meas_re eline of
        None \<Rightarrow> Next (e, l)
      | Some m \<Rightarrow>
          (case dict_get [(''1'', ''MM''), (''2'', ''IN'')] (m 1) of
             Inl x \<Rightarrow> Raise x (e, l)
           | Inr u \<Rightarrow> Continue (snd (convert_units (e\<lparr>units := u\<rparr>) u), l)))"

text \<open>The block \<^verbatim>\<open>if in_header:\<close>.\<close>

definition header_line :: "excellon \<Rightarrow> locals \<Rightarrow> string \<Rightarrow> pstate flow" where
  "header_line e l eline =
     (case re_search toolset_re eline of
        Some m \<Rightarrow>
          (case int_of_group (m 1) of
             Inl x \<Rightarrow> Raise x (e, l)
           | Inr n \<Rightarrow>
               (case float_of_group (m 2) of
                  Inl x \<Rightarrow> Raise x (e, l)
                | Inr c \<Rightarrow>
                    Continue (e\<lparr>tools := AList.update (py_str n) \<lparr>C = c, tool_geometry = []\<rparr>
                                            (tools e)\<rparr>, l)))
      | None \<Rightarrow>
          (case re_match units_re eline of
             Some m \<Rightarrow> units_directive e l m
           | None \<Rightarrow>
               if contains ''INCH'' eline
               then Continue (snd (convert_units e ''IN''), l\<lparr>line_units := ''IN''\<rparr>)
               else if contains ''METRIC'' eline
               then Continue (snd (convert_units e ''MM''), l\<lparr>line_units := ''MM''\<rparr>)
               else
                 (case re_search zeros_re eline of
                    Some m \<Rightarrow> Continue (e\<lparr>zeros := m 0\<rparr>, l)
                  | None \<Rightarrow> Next (e, l))))"

text \<open>The units directive outside the header.\<close>

definition units_outside_header :: "excellon \<Rightarrow> locals \<Rightarrow> string \<Rightarrow> pstate flow" where
  "units_outside_header e l eline =
     (case re_match units_re eline of
        Some m \<Rightarrow> units_directive e l m
      | None \<Rightarrow> Next (e, l))"

subsection \<open>parse_lines: the body\<close>

text \<open>The tool change \<^verbatim>\<open>T<n>\<close>. In a file without header the tool is defined here too,
  with the diameter after \<^verbatim>\<open>C\<close> or else with a made-up one.\<close>

definition tool_change :: "excellon \<Rightarrow> locals \<Rightarrow> string \<Rightarrow> pstate flow" where
  "tool_change e l eline =
     (case re_search toolsel_re eline of
        None \<Rightarrow> Next (e, l)
      | Some m \<Rightarrow>
          (case int_of_group (m 1) of
             Inl x \<Rightarrow> Raise x (e, l)
           | Inr n \<Rightarrow>
               (let l1 = l\<lparr>current_tool := py_str n\<rparr> in
                if headerless l1 then
                  (case re_search toolset_hl_re eline of
                     None \<Rightarrow> Continue (e, l1)
                   | Some mh \<Rightarrow>
                       (case int_of_group (mh 1) of
                          Inl x \<Rightarrow> Raise x (e, l1)
                        | Inr k \<Rightarrow>
                            (case float_of_group (mh 2) of
                               Inr diam \<Rightarrow>
                                 Continue (e\<lparr>tools := AList.update (py_str k)
                                                         \<lparr>C = diam, tool_geometry = []\<rparr> (tools e)\<rparr>, l1)
                             | Inl x \<Rightarrow>
                                 (let e1 = e\<lparr>diameterless := True,
                                             inform := inform e @ [No_tool_diameter (current_tool l1)]\<rparr>
                                  in case py_int (current_tool l1) of
                                       None \<Rightarrow> Raise ValueError (e1, l1)
                                     | Some ct \<Rightarrow>
                                         (let diam = (if excellon_units e1 = ''MM''
                                                      then toolless_diam e1 + (real ct - 1) / 100
                                                      else (toolless_diam e1 + (real ct - 1) / 100) / 25.4)
                                          in Continue (e1\<lparr>tools := AList.update (py_str k)
                                                            \<lparr>C = diam, tool_geometry = []\<rparr> (tools e1)\<rparr>,
                                                       l1))))))
                else Continue (e, l1))))"

text \<open>The tool change of Allegro files, on \<^verbatim>\<open>G90\<close>, \<^verbatim>\<open>G91\<close> and the stop commands.\<close>

definition allegro_tool_change :: "excellon \<Rightarrow> locals \<Rightarrow> string \<Rightarrow> pstate flow" where
  "allegro_tool_change e l eline =
     (if allegro_warning l
         \<and> (re_search absinc_re eline \<noteq> None \<or> re_search stop_re eline \<noteq> None)
      then Continue (e, l\<lparr>name_tool := name_tool l + 1, current_tool := py_str (name_tool l + 1)\<rparr>)
      else Next (e, l))"

text \<open>
  One of the four blocks \<^verbatim>\<open>try: v = convert(group); slot_current = v\<close>
  \<^verbatim>\<open>except TypeError: v = slot_current\<close> \<^verbatim>\<open>except Exception: return\<close> of a slot line: the
  value read and the new \<open>slot_current\<close>, or \<open>None\<close> for the \<^verbatim>\<open>return\<close>.
\<close>

definition slot_axis :: "exn + real option \<Rightarrow> real option \<Rightarrow> (real option \<times> real option) option" where
  "slot_axis r cur =
     (case r of
        Inr v \<Rightarrow> Some (v, v)
      | Inl x \<Rightarrow> if x = TypeError then Some (cur, cur) else None)"

text \<open>
  The four blocks of a \<^verbatim>\<open>G85\<close> line and the slot they make. \<open>conv\<close> converts a group,
  \<open>sm\<close> is the match of the start group and \<open>tm\<close> the match of the stop group, if any:
  \<^verbatim>\<open>.group\<close> of no match raises \<^verbatim>\<open>AttributeError\<close>, which the last handler turns into
  \<^verbatim>\<open>return\<close>.
\<close>

definition slot_coords ::
  "(string option \<Rightarrow> exn + real option) \<Rightarrow> groups \<Rightarrow> groups option \<Rightarrow> excellon \<Rightarrow> locals \<Rightarrow> pstate flow"
where
  "slot_coords conv sm tm e l =
     (case slot_axis (conv (sm 1)) (slot_current_x l) of
        None \<Rightarrow> Return (e, l)
      | Some sx \<Rightarrow>
     (let l1 = l\<lparr>slot_start_x := fst sx, slot_current_x := snd sx\<rparr> in
      case slot_axis (conv (sm 2)) (slot_current_y l1) of
        None \<Rightarrow> Return (e, l1)
      | Some sy \<Rightarrow>
     (let l2 = l1\<lparr>slot_start_y := fst sy, slot_current_y := snd sy\<rparr> in
      case tm of
        None \<Rightarrow> Return (e, l2)
      | Some t \<Rightarrow>
     (case slot_axis (conv (t 1)) (slot_current_x l2) of
        None \<Rightarrow> Return (e, l2)
      | Some tx \<Rightarrow>
     (let l3 = l2\<lparr>slot_current_x := snd tx\<rparr> in
      case slot_axis (conv (t 2)) (slot_current_y l3) of
        None \<Rightarrow> Return (e, l3)
      | Some ty \<Rightarrow>
     (let l4 = l3\<lparr>slot_current_y := snd ty\<rparr> in
      case (fst sx, fst sy, fst tx, fst ty) of
        (Some slot_start_x', Some slot_start_y', Some slot_stop_x, Some slot_stop_y) \<Rightarrow>
          Continue (e\<lparr>slots := slots e @
                        [\<lparr>slot_start = (slot_start_x', slot_start_y'),
                          slot_stop = (slot_stop_x, slot_stop_y),
                          slot_tool = current_tool l4\<rparr>]\<rparr>, l4)
      | _ \<Rightarrow> Continue (e, l4)))))))"

text \<open>\<^verbatim>\<open>float(group)\<close> as a conversion of a coordinate with a period.\<close>

definition period_number :: "string option \<Rightarrow> exn + real option" where
  "period_number g = (case float_of_group g of Inl x \<Rightarrow> Inl x | Inr v \<Rightarrow> Inr (Some v))"

text \<open>The block for drilled slots, \<^verbatim>\<open>if match:\<close> after \<^verbatim>\<open>slots_re.search\<close>. It always ends
  the iteration.\<close>

definition slots_block :: "excellon \<Rightarrow> locals \<Rightarrow> string \<Rightarrow> pstate flow" where
  "slots_block e l eline =
     (case re_search slots_re eline of
        None \<Rightarrow> Next (e, l)
      | Some m \<Rightarrow>
          (let e1 = e\<lparr>excellon_drills := Some False\<rparr> in
           case (m 1, m 2) of
             (Some start_coords_match, Some stop_coords_match) \<Rightarrow>
               (case re_search coordsnoperiod_re start_coords_match of
                  Some sm \<Rightarrow>
                    slot_coords (parse_number e1) sm
                      (re_search coordsnoperiod_re stop_coords_match) e1 l
                | None \<Rightarrow>
                    (case re_search coordsperiod_re start_coords_match of
                       Some sm \<Rightarrow>
                         slot_coords period_number sm
                           (re_search coordsperiod_re stop_coords_match) e1 l
                     | None \<Rightarrow> Continue (e1, l)))
           | _ \<Rightarrow> Raise TypeError (e1, l)))"

text \<open>\<^verbatim>\<open>matchr = self.repeat_re.search(eline)\<close> and the assignment to \<open>repeat\<close>.\<close>

definition read_repeat :: "locals \<Rightarrow> string \<Rightarrow> exn + locals" where
  "read_repeat l eline =
     (case re_search repeat_re eline of
        None \<Rightarrow> Inr l
      | Some mr \<Rightarrow>
          (case int_of_group (mr 1) of Inl x \<Rightarrow> Inl x | Inr n \<Rightarrow> Inr (l\<lparr>repeat := n\<rparr>)))"

text \<open>
  The blocks \<^verbatim>\<open>try: x = convert(group); repeating_x = current_x; current_x = x\<close>
  \<^verbatim>\<open>except TypeError: x = current_x; repeating_x = 0\<close> and the same for \<open>y\<close>: the value
  and the new locals, or the exception that is not a \<^verbatim>\<open>TypeError\<close>.
\<close>

definition read_x :: "exn + real option \<Rightarrow> locals \<Rightarrow> exn + (real option \<times> locals)" where
  "read_x r l =
     (case r of
        Inr v \<Rightarrow> Inr (v, l\<lparr>repeating_x := current_x l, current_x := v\<rparr>)
      | Inl x \<Rightarrow> if x = TypeError then Inr (current_x l, l\<lparr>repeating_x := Some 0\<rparr>) else Inl x)"

definition read_y :: "exn + real option \<Rightarrow> locals \<Rightarrow> exn + (real option \<times> locals)" where
  "read_y r l =
     (case r of
        Inr v \<Rightarrow> Inr (v, l\<lparr>repeating_y := current_y l, current_y := v\<rparr>)
      | Inl x \<Rightarrow> if x = TypeError then Inr (current_y l, l\<lparr>repeating_y := Some 0\<rparr>) else Inl x)"

text \<open>\<^verbatim>\<open>if repeating_x:\<close> holds for a float other than zero.\<close>

definition truthy :: "real option \<Rightarrow> bool" where
  "truthy r = (case r of None \<Rightarrow> False | Some v \<Rightarrow> v \<noteq> 0)"

text \<open>The loop \<^verbatim>\<open>while repeat > 0\<close>, with its variables \<open>coordx\<close> and \<open>coordy\<close>; the
  drills are appended to \<open>ds\<close>.\<close>

fun repeat_loop ::
  "nat \<Rightarrow> real \<Rightarrow> real \<Rightarrow> real option \<Rightarrow> real option \<Rightarrow> real \<Rightarrow> real \<Rightarrow> string \<Rightarrow> drill list \<Rightarrow> drill list"
where
  "repeat_loop 0 x y rx ry coordx coordy tool_name ds = ds"
| "repeat_loop (Suc k) x y rx ry coordx coordy tool_name ds =
     (let coordx' = (if truthy rx then real (Suc k) * x + the rx else coordx);
          coordy' = (if truthy ry then real (Suc k) * y + the ry else coordy)
      in repeat_loop k x y rx ry coordx' coordy' tool_name
           (ds @ [\<lparr>drill_point = (coordx', coordy'), drill_tool = tool_name\<rparr>]))"

text \<open>
  From \<^verbatim>\<open>## Excellon Routing parse\<close> to the end of the block of a coordinate line; \<open>x\<close>
  and \<open>y\<close> are not \<^verbatim>\<open>None\<close> here. The source has this text twice, for coordinates without
  and with a period. \<^verbatim>\<open>Point(slot_start_x, slot_start_y)\<close> raises when one of the two is
  not a number.
\<close>

definition routing_parse :: "excellon \<Rightarrow> locals \<Rightarrow> string \<Rightarrow> real \<Rightarrow> real \<Rightarrow> pstate flow" where
  "routing_parse e l eline x y =
     (if contains ''G00'' eline then
        Continue (e\<lparr>match_routing_start := Some ''G00'', excellon_drills := Some False,
                    routing_flag := 0\<rparr>,
                  l\<lparr>slot_start_x := Some x, slot_start_y := Some y\<rparr>)
      else if routing_flag e = 0 \<and> contains ''G01'' eline then
        (let e1 = e\<lparr>match_routing_stop := Some ''G01'', excellon_drills := Some False,
                    routing_flag := 1\<rparr>
         in case (slot_start_x l, slot_start_y l) of
              (Some sx, Some sy) \<Rightarrow>
                Continue (e1\<lparr>slots := slots e1 @
                               [\<lparr>slot_start = (sx, sy), slot_stop = (x, y),
                                 slot_tool = current_tool l\<rparr>]\<rparr>, l)
            | _ \<Rightarrow> Raise TypeError (e1, l))
      else if match_routing_start e = None \<and> match_routing_stop e = None then
        (if repeat l = 0 then
           Continue (e\<lparr>excellon_drills := Some True,
                       drills := drills e @ [\<lparr>drill_point = (x, y), drill_tool = current_tool l\<rparr>]\<rparr>,
                     l\<lparr>repeating_x := Some 0, repeating_y := Some 0\<rparr>)
         else
           Continue (e\<lparr>drills := repeat_loop (repeat l) x y (repeating_x l) (repeating_y l)
                                    x y (current_tool l) (drills e)\<rparr>,
                     l\<lparr>repeat := 0, repeating_x := Some 0, repeating_y := Some 0\<rparr>))
      else Next (e, l))"

text \<open>
  Coordinates without a period, up to the test \<^verbatim>\<open>if x is None or y is None\<close>: either the
  block ends there, or it goes on to the routing code with the point \<open>(x, y)\<close> and the
  locals. An exception of \<^verbatim>\<open>parse_number\<close> other than \<^verbatim>\<open>TypeError\<close> would end the parse with
  \<^verbatim>\<open>return\<close>.
\<close>

definition noperiod_point ::
  "excellon \<Rightarrow> locals \<Rightarrow> string \<Rightarrow> pstate flow + (real \<times> real \<times> locals)" where
  "noperiod_point e l eline =
     (case re_search coordsnoperiod_re eline of
        None \<Rightarrow> Inl (Next (e, l))
      | Some m \<Rightarrow>
          (case read_repeat l eline of
             Inl ex \<Rightarrow> Inl (Raise ex (e, l))
           | Inr l1 \<Rightarrow>
               (case read_x (parse_number e (m 1)) l1 of
                  Inl ex \<Rightarrow> Inl (Return (e, l1))
                | Inr xr \<Rightarrow>
                    (case read_y (parse_number e (m 2)) (snd xr) of
                       Inl ex \<Rightarrow> Inl (Return (e, snd xr))
                     | Inr yr \<Rightarrow>
                         (case (fst xr, fst yr) of
                            (Some x, Some y) \<Rightarrow> Inr (x, y, snd yr)
                          | _ \<Rightarrow> Inl (Continue (e, snd yr)))))))"

definition coords_noperiod :: "excellon \<Rightarrow> locals \<Rightarrow> string \<Rightarrow> pstate flow" where
  "coords_noperiod e l eline =
     (case noperiod_point e l eline of
        Inl f \<Rightarrow> f
      | Inr p \<Rightarrow> routing_parse e (snd (snd p)) eline (fst p) (fst (snd p)))"

text \<open>Coordinates with a period, likewise; \<open>e\<close> is the object after
  \<^verbatim>\<open>self.defaults['excellon_drills'] = True\<close>. Here a \<^verbatim>\<open>ValueError\<close> of \<^verbatim>\<open>float\<close> is not
  caught.\<close>

definition period_point ::
  "excellon \<Rightarrow> locals \<Rightarrow> string \<Rightarrow> pstate flow + (real \<times> real \<times> locals)" where
  "period_point e l eline =
     (case re_search coordsperiod_re eline of
        None \<Rightarrow> Inl (Next (e, l))
      | Some m \<Rightarrow>
          (case read_repeat l eline of
             Inl ex \<Rightarrow> Inl (Raise ex (e, l))
           | Inr l1 \<Rightarrow>
               (let e1 = e\<lparr>excellon_drills := Some True\<rparr> in
                case read_x (period_number (m 1)) l1 of
                  Inl ex \<Rightarrow> Inl (Raise ex (e1, l1))
                | Inr xr \<Rightarrow>
                    (case read_y (period_number (m 2)) (snd xr) of
                       Inl ex \<Rightarrow> Inl (Raise ex (e1, snd xr))
                     | Inr yr \<Rightarrow>
                         (case (fst xr, fst yr) of
                            (Some x, Some y) \<Rightarrow> Inr (x, y, snd yr)
                          | _ \<Rightarrow> Inl (Continue (e1, snd yr)))))))"

definition coords_period :: "excellon \<Rightarrow> locals \<Rightarrow> string \<Rightarrow> pstate flow" where
  "coords_period e l eline =
     (case period_point e l eline of
        Inl f \<Rightarrow> f
      | Inr p \<Rightarrow>
          routing_parse (e\<lparr>excellon_drills := Some True\<rparr>) (snd (snd p)) eline (fst p) (fst (snd p)))"

text \<open>The block \<^verbatim>\<open>if not in_header:\<close>.\<close>

definition body_line :: "excellon \<Rightarrow> locals \<Rightarrow> string \<Rightarrow> pstate flow" where
  "body_line e l eline =
     next_stage (tool_change e l eline)
       (\<lambda>e1 l1. next_stage (allegro_tool_change e1 l1 eline)
       (\<lambda>e2 l2. next_stage (slots_block e2 l2 eline)
       (\<lambda>e3 l3. next_stage (coords_noperiod e3 l3 eline)
       (\<lambda>e4 l4. coords_period e4 l4 eline))))"

subsection \<open>parse_lines: one line, and the loop\<close>

text \<open>One iteration of \<^verbatim>\<open>for eline in elines\<close>. The request to abort raises
  \<^verbatim>\<open>GracefulException\<close>, which is an \<^verbatim>\<open>Exception\<close> and is caught like the others.\<close>

definition parse_line :: "excellon \<Rightarrow> locals \<Rightarrow> string \<Rightarrow> pstate flow" where
  "parse_line e0 l0 raw =
     (if abort_flag e0 then Raise GracefulException (e0, l0)
      else
        (let l = l0\<lparr>line_num := line_num l0 + 1\<rparr>;
             e = e0\<lparr>source_file := source_file e0 @ raw\<rparr>;
             eline = py_strip [CHR '' '', CHR 0x0D, CHR 0x0A] raw
         in if re_search detect_gcode_re eline \<noteq> None
            then Return (e\<lparr>inform := inform e @ [Gcode_mark eline]\<rparr>, l)
            else if re_search hbegin_re eline \<noteq> None
            then Continue (e, l\<lparr>in_header := True, headerless := False\<rparr>)
            else if re_search allegro_hbegin_re eline \<noteq> None
            then Continue (e, l\<lparr>in_header := True, allegro_warning := True\<rparr>)
            else
              next_stage (if re_search comm_re eline \<noteq> None then comment_line e l eline
                          else if re_search hend_re eline \<noteq> None then header_end e l
                          else Next (e, l))
                (\<lambda>e1 l1. next_stage (measuring_mode e1 l1 eline)
                (\<lambda>e2 l2. next_stage (if \<not> in_header l2 then body_line e2 l2 eline else Next (e2, l2))
                (\<lambda>e3 l3. next_stage (if in_header l3 then header_line e3 l3 eline else Next (e3, l3))
                (\<lambda>e4 l4. next_stage (units_outside_header e4 l4 eline)
                (\<lambda>e5 l5. Continue (e5, l5))))))))"

text \<open>
  The loop and the handler around it. At the end of the lines, and at a \<^verbatim>\<open>return\<close>,
  the method returns \<^verbatim>\<open>None\<close>; after an exception it sends the message with the line
  number and the line and returns \<^verbatim>\<open>"fail"\<close>. The result keeps the local variables, so
  that the state after a prefix of the lines can be spoken about.
\<close>

fun parse_loop :: "excellon \<Rightarrow> locals \<Rightarrow> string list \<Rightarrow> string option \<times> pstate" where
  "parse_loop e l [] = (None, (e, l))"
| "parse_loop e l (raw # elines) =
     (case parse_line e l raw of
        Continue s \<Rightarrow> parse_loop (fst s) (snd s) elines
      | Next s \<Rightarrow> parse_loop (fst s) (snd s) elines
      | Return s \<Rightarrow> (None, s)
      | Raise x s \<Rightarrow>
          (Some ''fail'',
           ((fst s)\<lparr>inform := inform (fst s) @
                       [Parser_error (line_num (snd s))
                          (if abort_flag e then raw
                           else py_strip [CHR '' '', CHR 0x0D, CHR 0x0A] raw)]\<rparr>,
            snd s)))"

definition parse_lines :: "excellon \<Rightarrow> string list \<Rightarrow> string option \<times> excellon" where
  "parse_lines e elines = (fst (parse_loop e new_locals elines), fst (snd (parse_loop e new_locals elines)))"

section \<open>Notions used in the statements\<close>

text \<open>
  The definitions of this section are not part of the program: they name what the
  theorems speak about (the table of diameters, the shape a feature should get, the
  state after some lines) and give the objects of the examples.
\<close>

text \<open>The tool table reduced to names and diameters.\<close>

definition diameters :: "(string \<times> tool) list \<Rightarrow> (string \<times> real) list" where
  "diameters ts = map (\<lambda>(name, t). (name, C t)) ts"

text \<open>\<open>e'\<close> differs from \<open>e\<close> in the geometry and the messages only, with the same
  diameters.\<close>

definition geometry_only :: "excellon \<Rightarrow> excellon \<Rightarrow> bool" where
  "geometry_only e e' \<longleftrightarrow>
     e' = e\<lparr>tools := tools e', solid_geometry := solid_geometry e', inform := inform e'\<rparr>
     \<and> diameters (tools e') = diameters (tools e)"

text \<open>The shapes that the synthesis makes for a drill and for a slot whose tool is in
  the table of \<open>e\<close>.\<close>

definition drill_shape :: "excellon \<Rightarrow> drill \<Rightarrow> geom" where
  "drill_shape e d =
     Buffer_point (drill_point d) (C (the (map_of (tools e) (drill_tool d))) / 2) (resolution e)"

definition slot_shape :: "excellon \<Rightarrow> slot \<Rightarrow> geom" where
  "slot_shape e s =
     Buffer_line (slot_start s) (slot_stop s) (C (the (map_of (tools e) (slot_tool s))) / 2)
       (resolution e)"

text \<open>Two objects with the same tools, geometry and resolution.\<close>

definition same_geometry :: "excellon \<Rightarrow> excellon \<Rightarrow> bool" where
  "same_geometry e e' \<longleftrightarrow>
     tools e = tools e' \<and> solid_geometry e = solid_geometry e'
     \<and> geo_steps_per_circle e = geo_steps_per_circle e'"

text \<open>The object that the constructor makes when every argument is left at its
  default; \<open>app_units\<close> is \<^verbatim>\<open>self.app.defaults['units']\<close>, and no abort is requested.\<close>

definition new_excellon :: "string \<Rightarrow> excellon" where
  "new_excellon app_units =
     \<lparr>tools = [], drills = [], slots = [], solid_geometry = [], source_file = [],
      routing_flag = 1, match_routing_start = None, match_routing_stop = None,
      units = app_units, zeros = Some ''L'', toolless_diam = 1, diameterless = False,
      excellon_format_upper_in = 2, excellon_format_lower_in = 4,
      excellon_format_upper_mm = 3, excellon_format_lower_mm = 3,
      excellon_units = ''INCH'', excellon_format = None, geo_steps_per_circle = 64,
      file_units_factor = None, geo_len = 0, old_disp_number = 0, el_count = 0,
      excellon_drills = None, inform = [], abort_flag = False\<rparr>"

text \<open>Objects of the examples.\<close>

definition two_drills :: excellon where
  "two_drills = (new_excellon ''IN'')
     \<lparr>tools := [(''1'', \<lparr>C = 1, tool_geometry = []\<rparr>)],
      drills := [\<lparr>drill_point = (0, 0), drill_tool = ''2''\<rparr>,
                 \<lparr>drill_point = (1, 1), drill_tool = ''1''\<rparr>]\<rparr>"

definition four_drills :: excellon where
  "four_drills = (new_excellon ''IN'')
     \<lparr>tools := [(''1'', \<lparr>C = 1, tool_geometry = []\<rparr>)],
      drills := [\<lparr>drill_point = (0, 0), drill_tool = ''1''\<rparr>,
                 \<lparr>drill_point = (3, 0), drill_tool = []\<rparr>,
                 \<lparr>drill_point = (1, 1), drill_tool = ''2''\<rparr>,
                 \<lparr>drill_point = (2, 2), drill_tool = ''1''\<rparr>]\<rparr>"

definition two_slots :: excellon where
  "two_slots = (new_excellon ''IN'')
     \<lparr>tools := [(''1'', \<lparr>C = 1, tool_geometry = []\<rparr>)],
      drills := [\<lparr>drill_point = (0, 0), drill_tool = ''1''\<rparr>,
                 \<lparr>drill_point = (3, 0), drill_tool = []\<rparr>],
      slots := [\<lparr>slot_start = (0, 0), slot_stop = (1, 0), slot_tool = ''1''\<rparr>,
                \<lparr>slot_start = (0, 1), slot_stop = (1, 1), slot_tool = ''3''\<rparr>]\<rparr>"

definition one_tool :: excellon where
  "one_tool = (new_excellon ''IN'')
     \<lparr>tools := [(''1'', \<lparr>C = 1, tool_geometry = []\<rparr>)],
      drills := [\<lparr>drill_point = (1, 1), drill_tool = ''1''\<rparr>]\<rparr>"

text \<open>The state that a piece of the loop body ends in.\<close>

definition state_of :: "'a flow \<Rightarrow> 'a" where
  "state_of f = (case f of Next s \<Rightarrow> s | Continue s \<Rightarrow> s | Return s \<Rightarrow> s | Raise x s \<Rightarrow> s)"

text \<open>The state after the lines, when every one of them ends by going on to the next
  line; \<open>None\<close> when the loop is left by \<^verbatim>\<open>return\<close> or by an exception.\<close>

fun run_lines :: "excellon \<Rightarrow> locals \<Rightarrow> string list \<Rightarrow> pstate option" where
  "run_lines e l [] = Some (e, l)"
| "run_lines e l (raw # elines) =
     (case parse_line e l raw of
        Continue s \<Rightarrow> run_lines (fst s) (snd s) elines
      | Next s \<Rightarrow> run_lines (fst s) (snd s) elines
      | Return s \<Rightarrow> None
      | Raise x s \<Rightarrow> None)"

text \<open>\<^verbatim>\<open>eline.strip(' \r\n')\<close>.\<close>

definition clean :: "string \<Rightarrow> string" where
  "clean raw = py_strip [CHR '' '', CHR 0x0D, CHR 0x0A] raw"

text \<open>The tests that a line of the body passes before it comes to the coordinate
  blocks: it matches none of the patterns tried before them.\<close>

definition to_coordinates :: "locals \<Rightarrow> string \<Rightarrow> bool" where
  "to_coordinates l eline \<longleftrightarrow>
     re_search detect_gcode_re eline = None \<and> re_search hbegin_re eline = None
     \<and> re_search allegro_hbegin_re eline = None \<and> re_search comm_re eline = None
     \<and> re_search hend_re eline = None \<and> re_match meas_re eline = None
     \<and> re_search toolsel_re eline = None
     \<and> (allegro_warning l \<and> re_search absinc_re eline = None \<and> re_search stop_re eline = None
          \<or> allegro_warning l = False)
     \<and> re_search slots_re eline = None"

text \<open>
  The point \<open>(x, y)\<close> with which the line \<open>raw\<close>, read in the state \<open>(e, l)\<close>, first reaches
  the routing code, and the object and locals at that moment: the line is read outside
  the header, passes the tests above, and its coordinates, without or with a period,
  are both known. \<open>None\<close> if the line does not get there.
\<close>

definition line_point ::
  "excellon \<Rightarrow> locals \<Rightarrow> string \<Rightarrow> (real \<times> real \<times> excellon \<times> locals) option" where
  "line_point e l raw =
     (let e1 = e\<lparr>source_file := source_file e @ raw\<rparr>;
          l1 = l\<lparr>line_num := line_num l + 1\<rparr>;
          eline = clean raw
      in if abort_flag e \<or> in_header l then None
         else if to_coordinates l eline then
           (case noperiod_point e1 l1 eline of
              Inr p \<Rightarrow> Some (fst p, fst (snd p), e1, snd (snd p))
            | Inl f \<Rightarrow>
                if f = Next (e1, l1) then
                  (case period_point e1 l1 eline of
                     Inr p \<Rightarrow> Some (fst p, fst (snd p), e1\<lparr>excellon_drills := Some True\<rparr>, snd (snd p))
                   | Inl f' \<Rightarrow> None)
                else None)
         else None)"

text \<open>
  What one line leaves alone, from \<open>s\<close> to \<open>s'\<close>: once the routing marker is set it stays
  set and the number of drills stays; and unless the line contains \<^verbatim>\<open>G00\<close> or \<^verbatim>\<open>G01\<close> or
  is a \<^verbatim>\<open>G85\<close> line, the routing flag, the start of the open rout and the number of
  slots stay.
\<close>

definition steady :: "string \<Rightarrow> pstate \<Rightarrow> pstate \<Rightarrow> bool" where
  "steady eline s s' \<longleftrightarrow>
     (match_routing_start (fst s) = None
        \<or> match_routing_start (fst s') \<noteq> None \<and> length (drills (fst s')) = length (drills (fst s)))
     \<and> (contains ''G00'' eline \<or> contains ''G01'' eline \<or> re_search slots_re eline \<noteq> None
        \<or> routing_flag (fst s') = routing_flag (fst s)
          \<and> slot_start_x (snd s') = slot_start_x (snd s)
          \<and> slot_start_y (snd s') = slot_start_y (snd s)
          \<and> length (slots (fst s')) = length (slots (fst s)))"


text \<open>The state of the example of a rout, after the lines \<^verbatim>\<open>G00X01Y01\<close> and \<^verbatim>\<open>X02Y02\<close>
  with tool 1 selected.\<close>

definition rout_e2 :: excellon where
  "rout_e2 = (new_excellon ''IN'')
     \<lparr>source_file := ''G00X01Y01X02Y02'', routing_flag := 0,
      match_routing_start := Some ''G00'', excellon_drills := Some True\<rparr>"

definition rout_l2 :: locals where
  "rout_l2 = new_locals
     \<lparr>current_tool := ''1'', current_x := Some 2, current_y := Some 2, line_num := 2,
      slot_start_x := Some 1, slot_start_y := Some 1\<rparr>"

section \<open>Properties of the program\<close>

subsection \<open>What create_geometry changes\<close>

lemma diameters_map_entry [simp]:
  "diameters (AList.map_entry k (\<lambda>t. t\<lparr>tool_geometry := f t\<rparr>) ts) = diameters ts"
  by (induction ts) (auto simp: diameters_def)

lemma diameters_clear_tools [simp]: "diameters (clear_tools ts) = diameters ts"
  by (induction ts) (auto simp: diameters_def clear_tools_def)

lemma map_of_diameters: "map_of (diameters ts) k = map_option C (map_of ts k)"
  by (induction ts) (auto simp: diameters_def)

lemma geometry_only_refl [simp]: "geometry_only e e"
  by (simp add: geometry_only_def)

lemma geometry_only_trans: "geometry_only a b \<Longrightarrow> geometry_only b c \<Longrightarrow> geometry_only a c"
  unfolding geometry_only_def
proof (elim conjE, intro conjI)
  assume b: "b = a\<lparr>tools := tools b, solid_geometry := solid_geometry b, inform := inform b\<rparr>"
    and c: "c = b\<lparr>tools := tools c, solid_geometry := solid_geometry c, inform := inform c\<rparr>"
  have "c = (a\<lparr>tools := tools b, solid_geometry := solid_geometry b, inform := inform b\<rparr>)
              \<lparr>tools := tools c, solid_geometry := solid_geometry c, inform := inform c\<rparr>"
    using c b by metis
  then show "c = a\<lparr>tools := tools c, solid_geometry := solid_geometry c, inform := inform c\<rparr>"
    by simp
qed simp

lemma geometry_only_step:
  "diameters ts = diameters (tools e) \<Longrightarrow>
   geometry_only e (e\<lparr>solid_geometry := sg, tools := ts\<rparr>)"
  by (simp add: geometry_only_def)

lemma geometry_only_inform: "geometry_only e (e\<lparr>inform := m\<rparr>)"
  by (simp add: geometry_only_def)

lemma drills_geometry_only: "geometry_only e (snd (drills_geometry ds e))"
proof (induction ds arbitrary: e)
  case Nil
  show ?case by simp
next
  case (Cons d ds)
  show ?case
  proof (cases "drill_tool d = []")
    case True
    have "geometry_only e (e\<lparr>inform := inform e @ [Drill_skipped]\<rparr>)"
      by (rule geometry_only_inform)
    from geometry_only_trans [OF this Cons.IH] True show ?thesis by simp
  next
    case False
    show ?thesis
    proof (cases "map_of (tools e) (drill_tool d)")
      case None
      with False show ?thesis by simp
    next
      case (Some t)
      let ?p = "Buffer_point (drill_point d) (C t / 2) (resolution e)"
      let ?e = "e\<lparr>solid_geometry := solid_geometry e @ [?p],
                  tools := AList.map_entry (drill_tool d)
                    (\<lambda>t'. t'\<lparr>tool_geometry := tool_geometry t' @ [?p]\<rparr>) (tools e)\<rparr>"
      have "geometry_only e ?e" by (rule geometry_only_step) simp
      from geometry_only_trans [OF this Cons.IH] Some False show ?thesis
        by (simp add: Let_def)
    qed
  qed
qed

lemma slots_geometry_only: "geometry_only e (snd (slots_geometry ss e))"
proof (induction ss arbitrary: e)
  case Nil
  show ?case by simp
next
  case (Cons sl ss)
  show ?case
  proof (cases "map_of (tools e) (slot_tool sl)")
    case None
    then show ?thesis by simp
  next
    case (Some t)
    let ?p = "Buffer_line (slot_start sl) (slot_stop sl) (C t / 2) (resolution e)"
    let ?e = "e\<lparr>solid_geometry := solid_geometry e @ [?p],
                tools := AList.map_entry (slot_tool sl)
                  (\<lambda>t'. t'\<lparr>tool_geometry := tool_geometry t' @ [?p]\<rparr>) (tools e)\<rparr>"
    have "geometry_only e ?e" by (rule geometry_only_step) simp
    from geometry_only_trans [OF this Cons.IH] Some show ?thesis
      by (simp add: Let_def)
  qed
qed

lemma create_geometry_cases:
  "snd (create_geometry e) =
     (let e2 = e\<lparr>solid_geometry := [], tools := clear_tools (tools e)\<rparr>;
          e3 = snd (drills_geometry (drills e) e2)
      in if fst (drills_geometry (drills e) e2) = None
         then snd (slots_geometry (slots e3) e3) else e3)"
  by (simp add: create_geometry_def Let_def split: prod.splits option.splits)

lemma create_geometry_only: "geometry_only e (snd (create_geometry e))"
proof -
  let ?e2 = "e\<lparr>solid_geometry := [], tools := clear_tools (tools e)\<rparr>"
  let ?e3 = "snd (drills_geometry (drills e) ?e2)"
  have a: "geometry_only e ?e2" by (rule geometry_only_step) simp
  have b: "geometry_only e ?e3" by (rule geometry_only_trans [OF a drills_geometry_only])
  have c: "geometry_only e (snd (slots_geometry (slots ?e3) ?e3))"
    by (rule geometry_only_trans [OF b slots_geometry_only])
  show ?thesis using b c by (simp add: create_geometry_cases Let_def)
qed

text \<open>Reading a field off a state that differs in the geometry only.\<close>

lemma geometry_only_fields:
  assumes "geometry_only e e'"
  shows "drills e' = drills e" and "slots e' = slots e" and "source_file e' = source_file e"
    and "routing_flag e' = routing_flag e" and "match_routing_start e' = match_routing_start e"
    and "match_routing_stop e' = match_routing_stop e" and "units e' = units e"
    and "zeros e' = zeros e" and "toolless_diam e' = toolless_diam e"
    and "diameterless e' = diameterless e"
    and "excellon_format_upper_in e' = excellon_format_upper_in e"
    and "excellon_format_lower_in e' = excellon_format_lower_in e"
    and "excellon_format_upper_mm e' = excellon_format_upper_mm e"
    and "excellon_format_lower_mm e' = excellon_format_lower_mm e"
    and "excellon_units e' = excellon_units e" and "excellon_format e' = excellon_format e"
    and "geo_steps_per_circle e' = geo_steps_per_circle e"
    and "file_units_factor e' = file_units_factor e" and "geo_len e' = geo_len e"
    and "old_disp_number e' = old_disp_number e" and "el_count e' = el_count e"
    and "excellon_drills e' = excellon_drills e" and "abort_flag e' = abort_flag e"
    and "diameters (tools e') = diameters (tools e)"
proof -
  from assms have eq: "e' = e\<lparr>tools := tools e', solid_geometry := solid_geometry e', inform := inform e'\<rparr>"
    and d: "diameters (tools e') = diameters (tools e)"
    by (simp_all add: geometry_only_def)
  show "diameters (tools e') = diameters (tools e)" by (rule d)
  show "drills e' = drills e" by (subst eq) simp
  show "slots e' = slots e" by (subst eq) simp
  show "source_file e' = source_file e" by (subst eq) simp
  show "routing_flag e' = routing_flag e" by (subst eq) simp
  show "match_routing_start e' = match_routing_start e" by (subst eq) simp
  show "match_routing_stop e' = match_routing_stop e" by (subst eq) simp
  show "units e' = units e" by (subst eq) simp
  show "zeros e' = zeros e" by (subst eq) simp
  show "toolless_diam e' = toolless_diam e" by (subst eq) simp
  show "diameterless e' = diameterless e" by (subst eq) simp
  show "excellon_format_upper_in e' = excellon_format_upper_in e" by (subst eq) simp
  show "excellon_format_lower_in e' = excellon_format_lower_in e" by (subst eq) simp
  show "excellon_format_upper_mm e' = excellon_format_upper_mm e" by (subst eq) simp
  show "excellon_format_lower_mm e' = excellon_format_lower_mm e" by (subst eq) simp
  show "excellon_units e' = excellon_units e" by (subst eq) simp
  show "excellon_format e' = excellon_format e" by (subst eq) simp
  show "geo_steps_per_circle e' = geo_steps_per_circle e" by (subst eq) simp
  show "file_units_factor e' = file_units_factor e" by (subst eq) simp
  show "geo_len e' = geo_len e" by (subst eq) simp
  show "old_disp_number e' = old_disp_number e" by (subst eq) simp
  show "el_count e' = el_count e" by (subst eq) simp
  show "excellon_drills e' = excellon_drills e" by (subst eq) simp
  show "abort_flag e' = abort_flag e" by (subst eq) simp
qed

lemmas create_geometry_fields [simp] = geometry_only_fields [OF create_geometry_only]

lemma map_of_map_entry_None [simp]:
  "map_of (AList.map_entry k f ts) x = None \<longleftrightarrow> map_of ts x = None"
  by (induction ts) auto

lemma map_of_clear_tools:
  "map_of (clear_tools ts) k = map_option (\<lambda>t. t\<lparr>tool_geometry := []\<rparr>) (map_of ts k)"
  by (induction ts) (auto simp: clear_tools_def)

lemma map_of_None_iff_keys: "map_of ts k = None \<longleftrightarrow> k \<notin> fst ` set ts"
  by (simp add: map_of_eq_None_iff)

lemma keys_diameters: "fst ` set (diameters ts) = fst ` set ts"
  by (force simp: diameters_def)

lemma same_keys:
  assumes "diameters ts = diameters ts'"
  shows "fst ` set ts = fst ` set ts'"
  using keys_diameters [of ts] keys_diameters [of ts'] assms by simp

lemma C_of_diameters: "map_of ts k = Some t \<Longrightarrow> the (map_of (diameters ts) k) = C t"
  by (simp add: map_of_diameters)

lemma resolution_update [simp]:
  "resolution (e\<lparr>solid_geometry := sg, tools := ts\<rparr>) = resolution e"
  "resolution (e\<lparr>inform := m\<rparr>) = resolution e"
  by (simp_all add: resolution_def)

text \<open>The drill loop over drills whose tools are all in the table (or empty).\<close>

lemma drills_geometry_resolved:
  assumes "\<forall>d\<in>set ds1. drill_tool d = [] \<or> map_of (tools e) (drill_tool d) \<noteq> None"
  shows "drills_geometry (ds1 @ ds2) e = drills_geometry ds2 (snd (drills_geometry ds1 e))
     \<and> fst (drills_geometry ds1 e) = None
     \<and> solid_geometry (snd (drills_geometry ds1 e)) =
         solid_geometry e @
         map (\<lambda>d. Buffer_point (drill_point d) (the (map_of (diameters (tools e)) (drill_tool d)) / 2)
                    (resolution e))
             (filter (\<lambda>d. drill_tool d \<noteq> []) ds1)
     \<and> inform (snd (drills_geometry ds1 e)) =
         inform e @ map (\<lambda>d. Drill_skipped) (filter (\<lambda>d. drill_tool d = []) ds1)"
  using assms
proof (induction ds1 arbitrary: e)
  case Nil
  show ?case by simp
next
  case (Cons d ds)
  show ?case
  proof (cases "drill_tool d = []")
    case True
    let ?e = "e\<lparr>inform := inform e @ [Drill_skipped]\<rparr>"
    have "\<forall>d\<in>set ds. drill_tool d = [] \<or> map_of (tools ?e) (drill_tool d) \<noteq> None"
      using Cons.prems by simp
    from Cons.IH [OF this] True show ?thesis by simp
  next
    case False
    with Cons.prems obtain t where t: "map_of (tools e) (drill_tool d) = Some t" by auto
    let ?p = "Buffer_point (drill_point d) (C t / 2) (resolution e)"
    let ?e = "e\<lparr>solid_geometry := solid_geometry e @ [?p],
                tools := AList.map_entry (drill_tool d)
                  (\<lambda>t'. t'\<lparr>tool_geometry := tool_geometry t' @ [?p]\<rparr>) (tools e)\<rparr>"
    have "\<forall>d\<in>set ds. drill_tool d = [] \<or> map_of (tools ?e) (drill_tool d) \<noteq> None"
      using Cons.prems by simp
    from Cons.IH [OF this] t False show ?thesis
      by (simp add: Let_def C_of_diameters)
  qed
qed

lemma slots_geometry_resolved:
  assumes "\<forall>s\<in>set ss1. map_of (tools e) (slot_tool s) \<noteq> None"
  shows "slots_geometry (ss1 @ ss2) e = slots_geometry ss2 (snd (slots_geometry ss1 e))
     \<and> fst (slots_geometry ss1 e) = None
     \<and> solid_geometry (snd (slots_geometry ss1 e)) =
         solid_geometry e @
         map (\<lambda>s. Buffer_line (slot_start s) (slot_stop s)
                    (the (map_of (diameters (tools e)) (slot_tool s)) / 2) (resolution e)) ss1
     \<and> inform (snd (slots_geometry ss1 e)) = inform e"
  using assms
proof (induction ss1 arbitrary: e)
  case Nil
  show ?case by simp
next
  case (Cons sl ss)
  from Cons.prems obtain t where t: "map_of (tools e) (slot_tool sl) = Some t" by auto
  let ?p = "Buffer_line (slot_start sl) (slot_stop sl) (C t / 2) (resolution e)"
  let ?e = "e\<lparr>solid_geometry := solid_geometry e @ [?p],
              tools := AList.map_entry (slot_tool sl)
                (\<lambda>t'. t'\<lparr>tool_geometry := tool_geometry t' @ [?p]\<rparr>) (tools e)\<rparr>"
  have "\<forall>s\<in>set ss. map_of (tools ?e) (slot_tool s) \<noteq> None"
    using Cons.prems by simp
  from Cons.IH [OF this] t show ?case
    by (simp add: Let_def C_of_diameters)
qed

text \<open>What the two loops leave in the entry of the tool \<open>k\<close>.\<close>

lemma map_of_map_entry_if:
  "map_of (AList.map_entry k' f ts) k =
     (if k = k' then map_option f (map_of ts k) else map_of ts k)"
  by (induction ts) auto

lemma drills_geometry_tools:
  assumes "\<forall>d\<in>set ds1. drill_tool d = [] \<or> map_of (tools e) (drill_tool d) \<noteq> None"
  shows "map_of (tools (snd (drills_geometry ds1 e))) k =
     map_option (\<lambda>t. t\<lparr>tool_geometry := tool_geometry t @
         map (\<lambda>d. Buffer_point (drill_point d) (C t / 2) (resolution e))
             (filter (\<lambda>d. drill_tool d \<noteq> [] \<and> drill_tool d = k) ds1)\<rparr>)
       (map_of (tools e) k)"
  using assms
proof (induction ds1 arbitrary: e)
  case Nil
  show ?case by (cases "map_of (tools e) k") simp_all
next
  case (Cons d ds)
  show ?case
  proof (cases "drill_tool d = []")
    case True
    let ?e = "e\<lparr>inform := inform e @ [Drill_skipped]\<rparr>"
    have "\<forall>d\<in>set ds. drill_tool d = [] \<or> map_of (tools ?e) (drill_tool d) \<noteq> None"
      using Cons.prems by simp
    from Cons.IH [OF this] True show ?thesis by simp
  next
    case False
    with Cons.prems obtain t where t: "map_of (tools e) (drill_tool d) = Some t" by auto
    let ?p = "Buffer_point (drill_point d) (C t / 2) (resolution e)"
    let ?e = "e\<lparr>solid_geometry := solid_geometry e @ [?p],
                tools := AList.map_entry (drill_tool d)
                  (\<lambda>t'. t'\<lparr>tool_geometry := tool_geometry t' @ [?p]\<rparr>) (tools e)\<rparr>"
    have "\<forall>d\<in>set ds. drill_tool d = [] \<or> map_of (tools ?e) (drill_tool d) \<noteq> None"
      using Cons.prems by simp
    from Cons.IH [OF this] t False show ?thesis
      by (cases "map_of (tools e) k") (auto simp: Let_def map_of_map_entry_if)
  qed
qed

lemma slots_geometry_tools:
  assumes "\<forall>s\<in>set ss1. map_of (tools e) (slot_tool s) \<noteq> None"
  shows "map_of (tools (snd (slots_geometry ss1 e))) k =
     map_option (\<lambda>t. t\<lparr>tool_geometry := tool_geometry t @
         map (\<lambda>s. Buffer_line (slot_start s) (slot_stop s) (C t / 2) (resolution e))
             (filter (\<lambda>s. slot_tool s = k) ss1)\<rparr>)
       (map_of (tools e) k)"
  using assms
proof (induction ss1 arbitrary: e)
  case Nil
  show ?case by (cases "map_of (tools e) k") simp_all
next
  case (Cons sl ss)
  from Cons.prems obtain t where t: "map_of (tools e) (slot_tool sl) = Some t" by auto
  let ?p = "Buffer_line (slot_start sl) (slot_stop sl) (C t / 2) (resolution e)"
  let ?e = "e\<lparr>solid_geometry := solid_geometry e @ [?p],
              tools := AList.map_entry (slot_tool sl)
                (\<lambda>t'. t'\<lparr>tool_geometry := tool_geometry t' @ [?p]\<rparr>) (tools e)\<rparr>"
  have "\<forall>s\<in>set ss. map_of (tools ?e) (slot_tool s) \<noteq> None"
    using Cons.prems by simp
  from Cons.IH [OF this] t show ?case
    by (cases "map_of (tools e) k") (auto simp: Let_def map_of_map_entry_if)
qed

lemma drill_shapes_of_tool:
  "map_of (tools e) k = Some t \<Longrightarrow>
   map (\<lambda>d. Buffer_point (drill_point d) (C t / 2) (resolution e))
       (filter (\<lambda>d. drill_tool d \<noteq> [] \<and> drill_tool d = k) ds)
   = map (drill_shape e) (filter (\<lambda>d. drill_tool d \<noteq> [] \<and> drill_tool d = k) ds)"
  by (induction ds) (auto simp: drill_shape_def)

lemma slot_shapes_of_tool:
  "map_of (tools e) k = Some t \<Longrightarrow>
   map (\<lambda>s. Buffer_line (slot_start s) (slot_stop s) (C t / 2) (resolution e))
       (filter (\<lambda>s. slot_tool s = k) ss)
   = map (slot_shape e) (filter (\<lambda>s. slot_tool s = k) ss)"
  by (induction ss) (auto simp: slot_shape_def)

lemma drills_geometry_unresolved:
  "drill_tool d \<noteq> [] \<Longrightarrow> map_of (tools e) (drill_tool d) = None \<Longrightarrow>
   drills_geometry (d # ds) e = (Some KeyError, e)"
  by simp

lemma slots_geometry_unresolved:
  "map_of (tools e) (slot_tool s) = None \<Longrightarrow> slots_geometry (s # ss) e = (Some KeyError, e)"
  by simp

lemma the_diameters_clear:
  "the (map_of (diameters (clear_tools ts)) k) = C (the (map_of ts k)) \<or> map_of ts k = None"
  by (cases "map_of ts k") (simp_all add: map_of_diameters)

lemma drill_shapes_eq:
  assumes "\<forall>d\<in>set ds. drill_tool d = [] \<or> map_of ts (drill_tool d) \<noteq> None"
    and "tools e = ts" and "resolution e' = resolution e"
  shows "map (\<lambda>d. Buffer_point (drill_point d) (the (map_of (diameters (clear_tools ts)) (drill_tool d)) / 2)
                (resolution e')) (filter (\<lambda>d. drill_tool d \<noteq> []) ds)
       = map (drill_shape e) (filter (\<lambda>d. drill_tool d \<noteq> []) ds)"
  using assms by (auto simp: drill_shape_def map_of_diameters)

lemma slot_shapes_eq:
  assumes "\<forall>s\<in>set ss. map_of ts (slot_tool s) \<noteq> None"
    and "tools e = ts" and "resolution e' = resolution e"
  shows "map (\<lambda>s. Buffer_line (slot_start s) (slot_stop s)
                (the (map_of (diameters (clear_tools ts)) (slot_tool s)) / 2) (resolution e')) ss
       = map (slot_shape e) ss"
  using assms by (auto simp: slot_shape_def map_of_diameters)

lemma create_geometry_drill_fails:
  assumes dr: "drills e = ds1 @ d # ds2"
    and ok: "\<forall>x\<in>set ds1. drill_tool x = [] \<or> drill_tool x \<in> fst ` set (tools e)"
    and d1: "drill_tool d \<noteq> []" and d2: "drill_tool d \<notin> fst ` set (tools e)"
  shows "fst (create_geometry e) = Some ''fail''"
    and "solid_geometry (snd (create_geometry e)) =
           map (drill_shape e) (filter (\<lambda>x. drill_tool x \<noteq> []) ds1)"
    and "inform (snd (create_geometry e)) =
           inform e @ map (\<lambda>x. Drill_skipped) (filter (\<lambda>x. drill_tool x = []) ds1)"
    and "map_of (tools (snd (create_geometry e))) k =
           map_option (\<lambda>t. t\<lparr>tool_geometry :=
               map (drill_shape e) (filter (\<lambda>x. drill_tool x \<noteq> [] \<and> drill_tool x = k) ds1)\<rparr>)
             (map_of (tools e) k)"
proof -
  let ?e2 = "e\<lparr>solid_geometry := [], tools := clear_tools (tools e)\<rparr>"
  have ok2: "\<forall>x\<in>set ds1. drill_tool x = [] \<or> map_of (tools ?e2) (drill_tool x) \<noteq> None"
    using ok by (simp add: map_of_clear_tools map_of_None_iff_keys)
  have ok1: "\<forall>x\<in>set ds1. drill_tool x = [] \<or> map_of (tools e) (drill_tool x) \<noteq> None"
    using ok by (simp add: map_of_None_iff_keys)
  note r = drills_geometry_resolved [OF ok2, of "d # ds2"]
  let ?e3 = "snd (drills_geometry ds1 ?e2)"
  have g: "geometry_only ?e2 ?e3" by (rule drills_geometry_only)
  have "map_of (diameters (tools ?e3)) (drill_tool d) = None"
    using geometry_only_fields(24) [OF g] d2 by (simp add: map_of_diameters map_of_clear_tools map_of_None_iff_keys)
  then have n: "map_of (tools ?e3) (drill_tool d) = None"
    by (simp add: map_of_diameters)
  have all: "drills_geometry (drills e) ?e2 = (Some KeyError, ?e3)"
    using r drills_geometry_unresolved [OF d1 n] dr by simp
  have res: "resolution ?e2 = resolution e" by (simp add: resolution_def)
  show "fst (create_geometry e) = Some ''fail''"
    using all by (simp add: create_geometry_def)
  show "solid_geometry (snd (create_geometry e)) =
           map (drill_shape e) (filter (\<lambda>x. drill_tool x \<noteq> []) ds1)"
    using all r drill_shapes_eq [OF ok1 refl res] by (simp add: create_geometry_def)
  show "inform (snd (create_geometry e)) =
           inform e @ map (\<lambda>x. Drill_skipped) (filter (\<lambda>x. drill_tool x = []) ds1)"
    using all r by (simp add: create_geometry_def)
  have sn: "snd (create_geometry e) = ?e3"
    using all by (simp add: create_geometry_def)
  show "map_of (tools (snd (create_geometry e))) k =
           map_option (\<lambda>t. t\<lparr>tool_geometry :=
               map (drill_shape e) (filter (\<lambda>x. drill_tool x \<noteq> [] \<and> drill_tool x = k) ds1)\<rparr>)
             (map_of (tools e) k)"
  proof (cases "map_of (tools e) k")
    case None
    then show ?thesis
      using drills_geometry_tools [OF ok2, of k] by (simp add: sn map_of_clear_tools)
  next
    case (Some t)
    then show ?thesis
      using drills_geometry_tools [OF ok2, of k] drill_shapes_of_tool [OF Some, of ds1]
      by (simp add: sn map_of_clear_tools res)
  qed
qed

lemma create_geometry_slot_fails:
  assumes ok: "\<forall>x\<in>set (drills e). drill_tool x = [] \<or> drill_tool x \<in> fst ` set (tools e)"
    and sl: "slots e = ss1 @ s # ss2"
    and oks: "\<forall>x\<in>set ss1. slot_tool x \<in> fst ` set (tools e)"
    and bad: "slot_tool s \<notin> fst ` set (tools e)"
  shows "fst (create_geometry e) = Some ''fail''"
    and "solid_geometry (snd (create_geometry e)) =
           map (drill_shape e) (filter (\<lambda>x. drill_tool x \<noteq> []) (drills e)) @ map (slot_shape e) ss1"
    and "inform (snd (create_geometry e)) =
           inform e @ map (\<lambda>x. Drill_skipped) (filter (\<lambda>x. drill_tool x = []) (drills e))"
    and "map_of (tools (snd (create_geometry e))) k =
           map_option (\<lambda>t. t\<lparr>tool_geometry :=
               map (drill_shape e) (filter (\<lambda>x. drill_tool x \<noteq> [] \<and> drill_tool x = k) (drills e))
               @ map (slot_shape e) (filter (\<lambda>x. slot_tool x = k) ss1)\<rparr>)
             (map_of (tools e) k)"
proof -
  let ?e2 = "e\<lparr>solid_geometry := [], tools := clear_tools (tools e)\<rparr>"
  have ok2: "\<forall>x\<in>set (drills e). drill_tool x = [] \<or> map_of (tools ?e2) (drill_tool x) \<noteq> None"
    using ok by (simp add: map_of_clear_tools map_of_None_iff_keys)
  have ok1: "\<forall>x\<in>set (drills e). drill_tool x = [] \<or> map_of (tools e) (drill_tool x) \<noteq> None"
    using ok by (simp add: map_of_None_iff_keys)
  note r = drills_geometry_resolved [OF ok2, of "[]"]
  let ?e3 = "snd (drills_geometry (drills e) ?e2)"
  have g: "geometry_only ?e2 ?e3" by (rule drills_geometry_only)
  note f = geometry_only_fields [OF g]
  have dia: "diameters (tools ?e3) = diameters (tools e)" using f(24) by simp
  have none_iff: "\<And>k. map_of (tools ?e3) k = None \<longleftrightarrow> k \<notin> fst ` set (tools e)"
  proof -
    fix k
    have "fst ` set (tools ?e3) = fst ` set (tools e)" by (rule same_keys [OF dia])
    then show "map_of (tools ?e3) k = None \<longleftrightarrow> k \<notin> fst ` set (tools e)"
      by (simp add: map_of_None_iff_keys)
  qed
  have oks3: "\<forall>x\<in>set ss1. map_of (tools ?e3) (slot_tool x) \<noteq> None"
    using oks by (simp add: none_iff)
  have oks1: "\<forall>x\<in>set ss1. map_of (tools e) (slot_tool x) \<noteq> None"
    using oks by (simp add: map_of_None_iff_keys)
  note rs = slots_geometry_resolved [OF oks3, of "s # ss2"]
  let ?e4 = "snd (slots_geometry ss1 ?e3)"
  have g4: "geometry_only ?e3 ?e4" by (rule slots_geometry_only)
  have "diameters (tools ?e4) = diameters (tools e)"
    using geometry_only_fields(24) [OF g4] dia by simp
  then have "fst ` set (tools ?e4) = fst ` set (tools e)" by (rule same_keys)
  then have n: "map_of (tools ?e4) (slot_tool s) = None"
    using bad by (simp add: map_of_None_iff_keys)
  have sl3: "slots ?e3 = ss1 @ s # ss2" using f(2) sl by simp
  have dr: "fst (drills_geometry (drills e) ?e2) = None" using r by simp
  have all: "slots_geometry (slots ?e3) ?e3 = (Some KeyError, ?e4)"
    using rs slots_geometry_unresolved [OF n] sl3 by simp
  have res2: "resolution ?e2 = resolution e" by (simp add: resolution_def)
  have res3: "resolution ?e3 = resolution e"
    using f(17) by (simp add: resolution_def)
  have sg3: "solid_geometry ?e3 = map (drill_shape e) (filter (\<lambda>x. drill_tool x \<noteq> []) (drills e))"
    using r drill_shapes_eq [OF ok1 refl res2] by simp
  have shapes: "map (\<lambda>s. Buffer_line (slot_start s) (slot_stop s)
                    (the (map_of (diameters (tools ?e3)) (slot_tool s)) / 2) (resolution ?e3)) ss1
       = map (slot_shape e) ss1"
    using oks1 by (auto simp: dia res3 slot_shape_def map_of_diameters)
  obtain x3 where x3: "drills_geometry (drills e) ?e2 = (None, x3)" and x3e: "x3 = ?e3"
    using dr by (cases "drills_geometry (drills e) ?e2") auto
  show "fst (create_geometry e) = Some ''fail''"
    using x3 all by (simp add: create_geometry_def x3e [symmetric])
  have sn: "snd (create_geometry e) = ?e4"
    using x3 all by (simp add: create_geometry_def x3e [symmetric])
  then show "solid_geometry (snd (create_geometry e)) =
           map (drill_shape e) (filter (\<lambda>x. drill_tool x \<noteq> []) (drills e)) @ map (slot_shape e) ss1"
    using rs sg3 shapes by simp
  show "inform (snd (create_geometry e)) =
           inform e @ map (\<lambda>x. Drill_skipped) (filter (\<lambda>x. drill_tool x = []) (drills e))"
    using rs r by (simp add: sn)
  show "map_of (tools (snd (create_geometry e))) k =
           map_option (\<lambda>t. t\<lparr>tool_geometry :=
               map (drill_shape e) (filter (\<lambda>x. drill_tool x \<noteq> [] \<and> drill_tool x = k) (drills e))
               @ map (slot_shape e) (filter (\<lambda>x. slot_tool x = k) ss1)\<rparr>)
             (map_of (tools e) k)"
  proof (cases "map_of (tools e) k")
    case None
    then show ?thesis
      using slots_geometry_tools [OF oks3, of k] drills_geometry_tools [OF ok2, of k]
      by (simp add: sn map_of_clear_tools)
  next
    case (Some t)
    have t3: "map_of (tools ?e3) k = Some (t\<lparr>tool_geometry :=
        map (drill_shape e) (filter (\<lambda>x. drill_tool x \<noteq> [] \<and> drill_tool x = k) (drills e))\<rparr>)"
      using drills_geometry_tools [OF ok2, of k] drill_shapes_of_tool [OF Some, of "drills e"] Some
      by (simp add: map_of_clear_tools res2)
    have "map (\<lambda>s. Buffer_line (slot_start s) (slot_stop s) (C t / 2) (resolution ?e3))
            (filter (\<lambda>s. slot_tool s = k) ss1)
        = map (slot_shape e) (filter (\<lambda>s. slot_tool s = k) ss1)"
      using slot_shapes_of_tool [OF Some, of ss1] by (simp only: res3)
    then show ?thesis
      using slots_geometry_tools [OF oks3, of k] t3 Some by (simp add: sn)
  qed
qed

subsection \<open>Claim C1: a feature whose tool is not in the tool table\<close>

text \<open>
  Claim C1, as amended. \<^verbatim>\<open>create_geometry\<close> lets no exception escape, but it does not
  skip a feature whose non-empty tool name is missing from the tool table: the
  \<^verbatim>\<open>KeyError\<close> of the lookup ends the synthesis, and the method returns \<^verbatim>\<open>"fail"\<close>.

  \<^item> If the first such feature is the drill \<open>d\<close>, the solid geometry holds exactly the
    shapes of the drills before \<open>d\<close> that have a tool, the entry of every tool \<open>k\<close> of
    the table holds exactly the shapes of those of them that use \<open>k\<close>, and the
    messages added are one warning for each drill before \<open>d\<close> that has no tool: none
    for \<open>d\<close>.

  \<^item> If every drill is resolved (or has no tool) and the first unresolved slot is \<open>s\<close>,
    the solid geometry holds exactly the shapes of the drills that have a tool and
    of the slots before \<open>s\<close>, the entry of every tool \<open>k\<close> holds exactly the shapes of
    those of them that use \<open>k\<close>, and the messages added are one warning for each
    drill that has no tool: none for \<open>s\<close>.

  In both cases nothing is synthesized for the features that follow.
\<close>

theorem create_geometry_unresolved_tool:
  "(drills e = ds1 @ d # ds2
      \<and> (\<forall>x\<in>set ds1. drill_tool x = [] \<or> drill_tool x \<in> fst ` set (tools e))
      \<and> drill_tool d \<noteq> [] \<and> drill_tool d \<notin> fst ` set (tools e)
    \<longrightarrow> fst (create_geometry e) = Some ''fail''
      \<and> solid_geometry (snd (create_geometry e)) =
            map (drill_shape e) (filter (\<lambda>x. drill_tool x \<noteq> []) ds1)
      \<and> inform (snd (create_geometry e)) =
            inform e @ map (\<lambda>x. Drill_skipped) (filter (\<lambda>x. drill_tool x = []) ds1)
      \<and> map_of (tools (snd (create_geometry e))) k =
            map_option (\<lambda>t. t\<lparr>tool_geometry :=
                map (drill_shape e) (filter (\<lambda>x. drill_tool x \<noteq> [] \<and> drill_tool x = k) ds1)\<rparr>)
              (map_of (tools e) k))
   \<and> ((\<forall>x\<in>set (drills e). drill_tool x = [] \<or> drill_tool x \<in> fst ` set (tools e))
      \<and> slots e = ss1 @ s # ss2
      \<and> (\<forall>x\<in>set ss1. slot_tool x \<in> fst ` set (tools e))
      \<and> slot_tool s \<notin> fst ` set (tools e)
    \<longrightarrow> fst (create_geometry e) = Some ''fail''
      \<and> solid_geometry (snd (create_geometry e)) =
            map (drill_shape e) (filter (\<lambda>x. drill_tool x \<noteq> []) (drills e))
            @ map (slot_shape e) ss1
      \<and> inform (snd (create_geometry e)) =
            inform e @ map (\<lambda>x. Drill_skipped) (filter (\<lambda>x. drill_tool x = []) (drills e))
      \<and> map_of (tools (snd (create_geometry e))) k =
            map_option (\<lambda>t. t\<lparr>tool_geometry :=
                map (drill_shape e) (filter (\<lambda>x. drill_tool x \<noteq> [] \<and> drill_tool x = k) (drills e))
                @ map (slot_shape e) (filter (\<lambda>x. slot_tool x = k) ss1)\<rparr>)
              (map_of (tools e) k))"
  using create_geometry_drill_fails(1-3) [of e ds1 d ds2]
    create_geometry_drill_fails(4) [of e ds1 d ds2 k]
    create_geometry_slot_fails(1-3) [of e ss1 s ss2]
    create_geometry_slot_fails(4) [of e ss1 s ss2 k]
  by blast

text \<open>
  Claim C1 as stated fails: with the tool table \<open>{1}\<close>, a first drill that names tool 2
  and a second drill that names tool 1, the method returns \<^verbatim>\<open>"fail"\<close> with no geometry
  at all (the second drill, whose tool is known, is not synthesized) and no message.
\<close>

theorem create_geometry_unresolved_counterexample:
  "fst (create_geometry two_drills) = Some ''fail''
   \<and> solid_geometry (snd (create_geometry two_drills)) = []
   \<and> inform (snd (create_geometry two_drills)) = []
   \<and> map_of (tools two_drills) ''1'' \<noteq> None"
  by (simp add: create_geometry_def two_drills_def new_excellon_def clear_tools_def)

text \<open>The amended claim C1 at two objects: one with an unresolved drill, one with an
  unresolved slot; each has a drill without a tool before the unresolved feature.\<close>

theorem create_geometry_unresolved_tool_witness:
  "fst (create_geometry four_drills) = Some ''fail''
   \<and> solid_geometry (snd (create_geometry four_drills)) = [Buffer_point (0, 0) (1 / 2) 16]
   \<and> inform (snd (create_geometry four_drills)) = [Drill_skipped]
   \<and> map_of (tools (snd (create_geometry four_drills))) ''1'' =
        Some \<lparr>C = 1, tool_geometry = [Buffer_point (0, 0) (1 / 2) 16]\<rparr>
   \<and> fst (create_geometry two_slots) = Some ''fail''
   \<and> solid_geometry (snd (create_geometry two_slots)) =
        [Buffer_point (0, 0) (1 / 2) 16, Buffer_line (0, 0) (1, 0) (1 / 2) 16]
   \<and> inform (snd (create_geometry two_slots)) = [Drill_skipped]
   \<and> map_of (tools (snd (create_geometry two_slots))) ''1'' =
        Some \<lparr>C = 1, tool_geometry =
          [Buffer_point (0, 0) (1 / 2) 16, Buffer_line (0, 0) (1, 0) (1 / 2) 16]\<rparr>"
proof -
  let ?ds1 = "[\<lparr>drill_point = (0, 0), drill_tool = ''1''\<rparr>, \<lparr>drill_point = (3, 0), drill_tool = []\<rparr>]"
  let ?d = "\<lparr>drill_point = (1, 1), drill_tool = ''2''\<rparr>"
  let ?ds2 = "[\<lparr>drill_point = (2, 2), drill_tool = ''1''\<rparr>]"
  let ?ss1 = "[\<lparr>slot_start = (0, 0), slot_stop = (1, 0), slot_tool = ''1''\<rparr>]"
  let ?s = "\<lparr>slot_start = (0, 1), slot_stop = (1, 1), slot_tool = ''3''\<rparr>"
  have a: "drills four_drills = ?ds1 @ ?d # ?ds2
      \<and> (\<forall>x\<in>set ?ds1. drill_tool x = [] \<or> drill_tool x \<in> fst ` set (tools four_drills))
      \<and> drill_tool ?d \<noteq> [] \<and> drill_tool ?d \<notin> fst ` set (tools four_drills)"
    by (simp add: four_drills_def new_excellon_def)
  have b: "(\<forall>x\<in>set (drills two_slots). drill_tool x = [] \<or> drill_tool x \<in> fst ` set (tools two_slots))
      \<and> slots two_slots = ?ss1 @ ?s # []
      \<and> (\<forall>x\<in>set ?ss1. slot_tool x \<in> fst ` set (tools two_slots))
      \<and> slot_tool ?s \<notin> fst ` set (tools two_slots)"
    by (simp add: two_slots_def new_excellon_def)
  have c: "map (drill_shape four_drills) (filter (\<lambda>x. drill_tool x \<noteq> []) ?ds1) = [Buffer_point (0, 0) (1 / 2) 16]"
    "map (drill_shape four_drills) (filter (\<lambda>x. drill_tool x \<noteq> [] \<and> drill_tool x = ''1'') ?ds1)
      = [Buffer_point (0, 0) (1 / 2) 16]"
    by (simp_all add: drill_shape_def four_drills_def new_excellon_def resolution_def)
  have d: "map (drill_shape two_slots) (filter (\<lambda>x. drill_tool x \<noteq> []) (drills two_slots)) @ map (slot_shape two_slots) ?ss1
      = [Buffer_point (0, 0) (1 / 2) 16, Buffer_line (0, 0) (1, 0) (1 / 2) 16]"
    "map (drill_shape two_slots) (filter (\<lambda>x. drill_tool x \<noteq> [] \<and> drill_tool x = ''1'') (drills two_slots))
       @ map (slot_shape two_slots) (filter (\<lambda>x. slot_tool x = ''1'') ?ss1)
      = [Buffer_point (0, 0) (1 / 2) 16, Buffer_line (0, 0) (1, 0) (1 / 2) 16]"
    by (simp_all add: drill_shape_def slot_shape_def two_slots_def new_excellon_def resolution_def)
  have e: "inform four_drills = []" "inform two_slots = []"
    "map (\<lambda>x. Drill_skipped) (filter (\<lambda>x. drill_tool x = []) ?ds1) = [Drill_skipped]"
    "map (\<lambda>x. Drill_skipped) (filter (\<lambda>x. drill_tool x = []) (drills two_slots)) = [Drill_skipped]"
    "map_of (tools four_drills) ''1'' = Some \<lparr>C = 1, tool_geometry = []\<rparr>"
    "map_of (tools two_slots) ''1'' = Some \<lparr>C = 1, tool_geometry = []\<rparr>"
    by (simp_all add: four_drills_def two_slots_def new_excellon_def)
  from create_geometry_unresolved_tool [of four_drills ?ds1 ?d ?ds2 "''1''" ?ss1 ?s] a
  have 1: "fst (create_geometry four_drills) = Some ''fail''
      \<and> solid_geometry (snd (create_geometry four_drills)) =
            map (drill_shape four_drills) (filter (\<lambda>x. drill_tool x \<noteq> []) ?ds1)
      \<and> inform (snd (create_geometry four_drills)) =
            inform four_drills @ map (\<lambda>x. Drill_skipped) (filter (\<lambda>x. drill_tool x = []) ?ds1)
      \<and> map_of (tools (snd (create_geometry four_drills))) ''1'' =
            map_option (\<lambda>t. t\<lparr>tool_geometry :=
                map (drill_shape four_drills)
                  (filter (\<lambda>x. drill_tool x \<noteq> [] \<and> drill_tool x = ''1'') ?ds1)\<rparr>)
              (map_of (tools four_drills) ''1'')"
    by blast
  from create_geometry_unresolved_tool [of two_slots ?ds1 ?d ?ds2 "''1''" ?ss1 ?s "[]"] b
  have 2: "fst (create_geometry two_slots) = Some ''fail''
      \<and> solid_geometry (snd (create_geometry two_slots)) =
            map (drill_shape two_slots) (filter (\<lambda>x. drill_tool x \<noteq> []) (drills two_slots))
            @ map (slot_shape two_slots) ?ss1
      \<and> inform (snd (create_geometry two_slots)) =
            inform two_slots @ map (\<lambda>x. Drill_skipped) (filter (\<lambda>x. drill_tool x = []) (drills two_slots))
      \<and> map_of (tools (snd (create_geometry two_slots))) ''1'' =
            map_option (\<lambda>t. t\<lparr>tool_geometry :=
                map (drill_shape two_slots)
                  (filter (\<lambda>x. drill_tool x \<noteq> [] \<and> drill_tool x = ''1'') (drills two_slots))
                @ map (slot_shape two_slots) (filter (\<lambda>x. slot_tool x = ''1'') ?ss1)\<rparr>)
              (map_of (tools two_slots) ''1'')"
    by blast
  from 1 show ?thesis using 2 c d e by simp
qed

subsection \<open>Claim C10: scaling by zero\<close>

text \<open>
  Claim C10. \<^verbatim>\<open>scale\<close> with \<open>xfactor = 0\<close> and \<open>yfactor = 0\<close>, or with \<open>xfactor = 0\<close> and
  \<open>yfactor\<close> left at its default, returns at once: the object is unchanged in every
  attribute (drills, slots, tool diameters, stored geometry and all the rest).
\<close>

theorem scale_zero_is_noop:
  "scale e 0 None point_opt = e \<and> scale e 0 (Some 0) point_opt = e"
  by (simp add: scale_def)

subsection \<open>Claim C2: scale and the tool diameters\<close>

text \<open>
  Claim C2 as stated fails: scaling an object with one tool of diameter 1 by the
  factor 2 leaves the diameter at 1 (the claim requires 2), and the drill at \<open>(1, 1)\<close>
  is re-synthesized at \<open>(2, 2)\<close> with the old radius \<open>1/2\<close>.
\<close>

theorem scale_diameter_counterexample:
  "map (\<lambda>(name, t). C t) (tools (scale one_tool 2 None None)) = [1]
   \<and> map (\<lambda>(name, t). 2 * C t) (tools one_tool) = [2]
   \<and> solid_geometry (scale one_tool 2 None None) = [Buffer_point (2, 2) (1 / 2) 16]"
  by (simp add: scale_def create_geometry_def one_tool_def new_excellon_def clear_tools_def
      scale_geom_def scale_point_def resolution_def Let_def)

lemma same_geometry_resolution: "same_geometry e e' \<Longrightarrow> resolution e = resolution e'"
  by (simp add: same_geometry_def resolution_def)

lemma drills_geometry_same:
  "same_geometry e e' \<Longrightarrow>
   fst (drills_geometry ds e) = fst (drills_geometry ds e')
   \<and> same_geometry (snd (drills_geometry ds e)) (snd (drills_geometry ds e'))"
proof (induction ds arbitrary: e e')
  case Nil
  then show ?case by simp
next
  case (Cons d ds)
  note sg = Cons.prems
  then have t: "tools e = tools e'" and r: "resolution e = resolution e'"
    and s: "solid_geometry e = solid_geometry e'"
    by (simp_all add: same_geometry_def resolution_def)
  show ?case
  proof (cases "drill_tool d = []")
    case True
    have "same_geometry (e\<lparr>inform := inform e @ [Drill_skipped]\<rparr>)
            (e'\<lparr>inform := inform e' @ [Drill_skipped]\<rparr>)"
      using sg by (simp add: same_geometry_def)
    from Cons.IH [OF this] True show ?thesis by simp
  next
    case False
    show ?thesis
    proof (cases "map_of (tools e) (drill_tool d)")
      case None
      with False sg t show ?thesis by simp
    next
      case (Some tl)
      let ?p = "Buffer_point (drill_point d) (C tl / 2) (resolution e)"
      let ?ts = "AList.map_entry (drill_tool d)
                   (\<lambda>t'. t'\<lparr>tool_geometry := tool_geometry t' @ [?p]\<rparr>) (tools e)"
      have "same_geometry (e\<lparr>solid_geometry := solid_geometry e @ [?p], tools := ?ts\<rparr>)
              (e'\<lparr>solid_geometry := solid_geometry e' @ [?p], tools := ?ts\<rparr>)"
        using sg by (simp add: same_geometry_def)
      from Cons.IH [OF this] Some False t r show ?thesis by (simp add: Let_def)
    qed
  qed
qed

lemma slots_geometry_same:
  "same_geometry e e' \<Longrightarrow>
   fst (slots_geometry ss e) = fst (slots_geometry ss e')
   \<and> same_geometry (snd (slots_geometry ss e)) (snd (slots_geometry ss e'))"
proof (induction ss arbitrary: e e')
  case Nil
  then show ?case by simp
next
  case (Cons sl ss)
  note sg = Cons.prems
  then have t: "tools e = tools e'" and r: "resolution e = resolution e'"
    by (simp_all add: same_geometry_def resolution_def)
  show ?case
  proof (cases "map_of (tools e) (slot_tool sl)")
    case None
    with sg t show ?thesis by simp
  next
    case (Some tl)
    let ?p = "Buffer_line (slot_start sl) (slot_stop sl) (C tl / 2) (resolution e)"
    let ?ts = "AList.map_entry (slot_tool sl)
                 (\<lambda>t'. t'\<lparr>tool_geometry := tool_geometry t' @ [?p]\<rparr>) (tools e)"
    have "same_geometry (e\<lparr>solid_geometry := solid_geometry e @ [?p], tools := ?ts\<rparr>)
            (e'\<lparr>solid_geometry := solid_geometry e' @ [?p], tools := ?ts\<rparr>)"
      using sg by (simp add: same_geometry_def)
    from Cons.IH [OF this] Some t r show ?thesis by (simp add: Let_def)
  qed
qed

lemma create_geometry_same:
  assumes "clear_tools (tools e) = clear_tools (tools e')"
    and "drills e = drills e'" and "slots e = slots e'"
    and "geo_steps_per_circle e = geo_steps_per_circle e'"
  shows "fst (create_geometry e) = fst (create_geometry e')
     \<and> same_geometry (snd (create_geometry e)) (snd (create_geometry e'))"
proof -
  let ?a = "e\<lparr>solid_geometry := [], tools := clear_tools (tools e)\<rparr>"
  let ?b = "e'\<lparr>solid_geometry := [], tools := clear_tools (tools e')\<rparr>"
  have ab: "same_geometry ?a ?b" using assms by (simp add: same_geometry_def)
  note d = drills_geometry_same [OF ab, of "drills e"]
  let ?a3 = "snd (drills_geometry (drills e) ?a)"
  let ?b3 = "snd (drills_geometry (drills e) ?b)"
  have sa: "slots ?a3 = slots e" using geometry_only_fields(2) [OF drills_geometry_only, of "drills e" ?a] by simp
  have sb: "slots ?b3 = slots e" using geometry_only_fields(2) [OF drills_geometry_only, of "drills e" ?b] assms by simp
  from d have ab3: "same_geometry ?a3 ?b3" by simp
  note s = slots_geometry_same [OF ab3, of "slots e"]
  have ca: "create_geometry e =
      (if fst (drills_geometry (drills e) ?a) = None
       then (if fst (slots_geometry (slots e) ?a3) = None then None else Some ''fail'',
             snd (slots_geometry (slots e) ?a3))
       else (Some ''fail'', ?a3))"
    unfolding sa [symmetric]
    by (simp add: create_geometry_def Let_def split: prod.splits option.splits)
  have cb: "create_geometry e' =
      (if fst (drills_geometry (drills e) ?b) = None
       then (if fst (slots_geometry (slots e) ?b3) = None then None else Some ''fail'',
             snd (slots_geometry (slots e) ?b3))
       else (Some ''fail'', ?b3))"
    unfolding sb [symmetric] assms(2)
    by (simp add: create_geometry_def Let_def split: prod.splits option.splits)
  show ?thesis using d s by (simp add: ca cb)
qed

lemma clear_tools_scaled:
  "clear_tools (map (\<lambda>(name, t). (name, t\<lparr>tool_geometry := f t\<rparr>)) ts) = clear_tools ts"
  by (induction ts) (auto simp: clear_tools_def)

lemma diameters_scaled [simp]:
  "diameters (map (\<lambda>(name, t). (name, t\<lparr>tool_geometry := f t\<rparr>)) ts) = diameters ts"
  by (induction ts) (auto simp: diameters_def)

text \<open>
  Claim C2, as amended. For every object and every pair of factors, \<^verbatim>\<open>scale\<close> leaves
  every tool diameter as it was (its docstring says that tool sizes are untouched; the
  diameters are multiplied by \<^verbatim>\<open>convert_units\<close>, after its call of \<^verbatim>\<open>scale\<close>). When the
  factors are not both zero it rewrites every drill point and every slot start and
  stop, and the solid geometry, of the object and of each tool, is the one
  \<^verbatim>\<open>create_geometry\<close> synthesizes from the rewritten points and the unchanged
  diameters: the scaled copies of the old shapes are discarded.
\<close>

theorem scale_keeps_diameters:
  assumes "yfactor = (case yfactor_opt of None \<Rightarrow> xfactor | Some y \<Rightarrow> y)"
    and "origin = (case point_opt of None \<Rightarrow> (0, 0) | Some p \<Rightarrow> p)"
    and "e' = e\<lparr>drills := map (\<lambda>d. d\<lparr>drill_point := scale_point xfactor yfactor origin (drill_point d)\<rparr>)
                              (drills e),
                slots := map (\<lambda>s. s\<lparr>slot_stop := scale_point xfactor yfactor origin (slot_stop s),
                                    slot_start := scale_point xfactor yfactor origin (slot_start s)\<rparr>)
                             (slots e)\<rparr>"
  shows "diameters (tools (scale e xfactor yfactor_opt point_opt)) = diameters (tools e)
    \<and> (\<not> (xfactor = 0 \<and> yfactor = 0) \<longrightarrow>
          drills (scale e xfactor yfactor_opt point_opt) = drills e'
        \<and> slots (scale e xfactor yfactor_opt point_opt) = slots e'
        \<and> solid_geometry (scale e xfactor yfactor_opt point_opt) = solid_geometry (snd (create_geometry e'))
        \<and> tools (scale e xfactor yfactor_opt point_opt) = tools (snd (create_geometry e')))"
proof (cases "xfactor = 0 \<and> yfactor = 0")
  case True
  then have "scale e xfactor yfactor_opt point_opt = e"
    using assms(1) by (cases yfactor_opt) (simp_all add: scale_def Let_def)
  with True show ?thesis by simp
next
  case False
  let ?e4 = "e\<lparr>geo_len := length (drills e),
               old_disp_number := (if drills e = [] then 0 else 100),
               el_count := length (drills e),
               drills := drills e',
               tools := map (\<lambda>(name, t). (name, t\<lparr>tool_geometry :=
                          scale_geom xfactor yfactor origin (tool_geometry t)\<rparr>)) (tools e),
               slots := slots e'\<rparr>"
  have sc: "scale e xfactor yfactor_opt point_opt = snd (create_geometry ?e4)"
    using False assms by (auto simp: scale_def Let_def)
  have "fst (create_geometry ?e4) = fst (create_geometry e')
     \<and> same_geometry (snd (create_geometry ?e4)) (snd (create_geometry e'))"
    by (rule create_geometry_same) (simp_all add: assms(3) clear_tools_scaled)
  then have sg: "same_geometry (snd (create_geometry ?e4)) (snd (create_geometry e'))" by simp
  have "diameters (tools (snd (create_geometry ?e4))) = diameters (tools ?e4)" by simp
  then have d: "diameters (tools (snd (create_geometry ?e4))) = diameters (tools e)" by simp
  have dr: "drills (snd (create_geometry ?e4)) = drills e'" by simp
  have sl: "slots (snd (create_geometry ?e4)) = slots e'" by simp
  have t: "tools (snd (create_geometry ?e4)) = tools (snd (create_geometry e'))"
    and g: "solid_geometry (snd (create_geometry ?e4)) = solid_geometry (snd (create_geometry e'))"
    using sg by (simp_all add: same_geometry_def)
  show ?thesis unfolding sc
  proof (intro conjI impI)
    show "diameters (tools (snd (create_geometry ?e4))) = diameters (tools e)" by (rule d)
    show "drills (snd (create_geometry ?e4)) = drills e'" by (rule dr)
    show "slots (snd (create_geometry ?e4)) = slots e'" by (rule sl)
    show "solid_geometry (snd (create_geometry ?e4)) = solid_geometry (snd (create_geometry e'))"
      by (rule g)
    show "tools (snd (create_geometry ?e4)) = tools (snd (create_geometry e'))" by (rule t)
  qed
qed

text \<open>The amended claim C2 at the object with one tool and the factor 2.\<close>

theorem scale_keeps_diameters_witness:
  "diameters (tools (scale one_tool 2 None None)) = [(''1'', 1)]
   \<and> drills (scale one_tool 2 None None) = [\<lparr>drill_point = (2, 2), drill_tool = ''1''\<rparr>]
   \<and> slots (scale one_tool 2 None None) = []
   \<and> solid_geometry (scale one_tool 2 None None) = [Buffer_point (2, 2) (1 / 2) 16]"
proof -
  let ?e' = "one_tool\<lparr>drills := map (\<lambda>d. d\<lparr>drill_point := scale_point 2 2 (0, 0) (drill_point d)\<rparr>)
                              (drills one_tool),
                slots := map (\<lambda>s. s\<lparr>slot_stop := scale_point 2 2 (0, 0) (slot_stop s),
                                    slot_start := scale_point 2 2 (0, 0) (slot_start s)\<rparr>)
                             (slots one_tool)\<rparr>"
  have a: "(2::real) = (case None of None \<Rightarrow> 2 | Some y \<Rightarrow> y)" by simp
  have b: "((0::real), (0::real)) = (case None of None \<Rightarrow> (0, 0) | Some p \<Rightarrow> p)" by simp
  have c: "\<not> ((2::real) = 0 \<and> (2::real) = 0)" by simp
  have d: "drills ?e' = [\<lparr>drill_point = (2, 2), drill_tool = ''1''\<rparr>] \<and> slots ?e' = []
      \<and> solid_geometry (snd (create_geometry ?e')) = [Buffer_point (2, 2) (1 / 2) 16]
      \<and> diameters (tools one_tool) = [(''1'', 1)]"
    by (simp add: create_geometry_def one_tool_def new_excellon_def clear_tools_def
        scale_point_def resolution_def Let_def diameters_def)
  from scale_keeps_diameters [OF a b refl, of one_tool] c d show ?thesis by simp
qed

subsection \<open>Claim C8: scaling there and back\<close>

lemma scale_point_inverse:
  "xf \<noteq> 0 \<Longrightarrow> yf \<noteq> 0 \<Longrightarrow> scale_point (1 / xf) (1 / yf) origin (scale_point xf yf origin p) = p"
  by (cases p) (simp add: scale_point_def field_simps)

text \<open>
  Claim C8. For every object and every factor \<open>f\<close> other than zero, \<^verbatim>\<open>scale(f)\<close> followed
  by \<^verbatim>\<open>scale(1/f)\<close> (about the same origin) gives back every drill point, every slot
  start and stop, and every tool diameter, exactly, the floats being real numbers.
\<close>

theorem scale_round_trip:
  assumes "f \<noteq> 0"
  shows "drills (scale (scale e f None point_opt) (1 / f) None point_opt) = drills e
    \<and> slots (scale (scale e f None point_opt) (1 / f) None point_opt) = slots e
    \<and> diameters (tools (scale (scale e f None point_opt) (1 / f) None point_opt)) = diameters (tools e)"
  using assms
  by (simp add: scale_def Let_def o_def scale_point_inverse)

text \<open>Claim C8 at the object with one tool and \<open>f = 2\<close>; the first scaling does move
  the drill.\<close>

theorem scale_round_trip_witness:
  "drills (scale (scale one_tool 2 None None) (1 / 2) None None) = drills one_tool
    \<and> slots (scale (scale one_tool 2 None None) (1 / 2) None None) = slots one_tool
    \<and> diameters (tools (scale (scale one_tool 2 None None) (1 / 2) None None)) = [(''1'', 1)]
    \<and> drills (scale one_tool 2 None None) \<noteq> drills one_tool"
proof -
  have a: "(2::real) \<noteq> 0" by simp
  have b: "diameters (tools one_tool) = [(''1'', 1)]"
    by (simp add: one_tool_def new_excellon_def diameters_def)
  have c: "drills (scale one_tool 2 None None) \<noteq> drills one_tool"
    by (simp add: scale_def Let_def one_tool_def new_excellon_def scale_point_def)
  from scale_round_trip [OF a, of one_tool None] b c show ?thesis by simp
qed

subsection \<open>The first match of simple patterns\<close>

lemma star_first:
  assumes "\<And>p g. rmatch a p g = one_char ok p g"
  shows "\<exists>rest. rmatch (Star a) (n, s) g =
           ((n + length (takeWhile ok s), dropWhile ok s), g) # rest"
proof (induction s arbitrary: n)
  case Nil
  show ?case by (simp add: assms one_char_def)
next
  case (Cons c cs)
  show ?case
  proof (cases "ok c")
    case True
    from Cons.IH [of "Suc n"] obtain rest where
      "rmatch (Star a) (Suc n, cs) g = ((Suc n + length (takeWhile ok cs), dropWhile ok cs), g) # rest"
      by blast
    with True show ?thesis by (simp add: assms one_char_def)
  next
    case False
    then show ?thesis by (simp add: assms one_char_def)
  qed
qed

lemma seq_first:
  assumes "rmatch a p g = x # xs" and "rmatch b (fst x) (snd x) = y # ys"
  shows "\<exists>rest. rmatch (Seq a b) p g = y # rest"
  using assms by simp

lemma grp_first:
  assumes "rmatch a p g = x # xs"
  shows "\<exists>rest. rmatch (Grp k a) p g =
           (fst x, (snd x)(k \<mapsto> take (fst (fst x) - fst p) (snd p))) # rest"
  using assms by simp

lemma is_digit_not_sign: "is_digit c \<Longrightarrow> c \<noteq> CHR ''-'' \<and> c \<noteq> CHR ''+''"
  by (auto simp: is_digit_def)

lemma leadingzeros_first:
  assumes ne: "ds \<noteq> []" and dig: "\<forall>c\<in>set ds. is_digit c" and sg: "sg \<in> {[], ''-'', ''+''}"
  shows "\<exists>m. re_search leadingzeros_re (sg @ ds) = Some m
            \<and> m 1 = Some (takeWhile (\<lambda>c. c = CHR ''0'') ds)
            \<and> m 2 = Some (dropWhile (\<lambda>c. c = CHR ''0'') ds)"
proof -
  let ?z = "takeWhile (\<lambda>c. c = CHR ''0'') ds"
  let ?r = "dropWhile (\<lambda>c. c = CHR ''0'') ds"
  let ?k = "length sg"
  obtain c cs where ds: "ds = c # cs" using ne by (cases ds) auto
  with dig have c: "c \<noteq> CHR ''-''" "c \<noteq> CHR ''+''" using is_digit_not_sign by auto
  have o: "\<exists>rest. rmatch (Opt (OneOf ''-+'')) (0, sg @ ds) Map.empty = ((?k, ds), Map.empty) # rest"
    using sg c ds by (auto simp: one_char_def)
  obtain r1 where s1: "rmatch (Star (Lit CHR ''0'')) (?k, ds) Map.empty
      = ((?k + length ?z, ?r), Map.empty) # r1"
    using star_first [of "Lit CHR ''0''" "\<lambda>x. x = CHR ''0''" ?k ds Map.empty] by auto
  from grp_first [OF s1, of 1]
  obtain r2 where g1: "rmatch (Grp 1 (Star (Lit CHR ''0''))) (?k, ds) Map.empty
      = ((?k + length ?z, ?r), [1 \<mapsto> take (length ?z) ds]) # r2" by auto
  have rd: "takeWhile is_digit ?r = ?r" "dropWhile is_digit ?r = []"
    using dig by (auto simp: takeWhile_eq_all_conv dest: set_dropWhileD)
  obtain r3 where s2: "rmatch (Star Digit) (?k + length ?z, ?r) [1 \<mapsto> take (length ?z) ds]
      = ((?k + length ?z + length ?r, []), [1 \<mapsto> take (length ?z) ds]) # r3"
    using star_first [of Digit is_digit "?k + length ?z" ?r "[1 \<mapsto> take (length ?z) ds]"] rd by auto
  from grp_first [OF s2, of 2]
  obtain r4 where g2: "rmatch (Grp 2 (Star Digit)) (?k + length ?z, ?r) [1 \<mapsto> take (length ?z) ds]
      = ((?k + length ?z + length ?r, []), [1 \<mapsto> take (length ?z) ds, 2 \<mapsto> ?r]) # r4"
    by auto
  from seq_first [of "Grp 1 (Star (Lit CHR ''0''))" "(?k, ds)" Map.empty _ r2 "Grp 2 (Star Digit)", OF g1]
    g2
  obtain r5 where q1: "rmatch (Seq (Grp 1 (Star (Lit CHR ''0''))) (Grp 2 (Star Digit))) (?k, ds) Map.empty
      = ((?k + length ?z + length ?r, []), [1 \<mapsto> take (length ?z) ds, 2 \<mapsto> ?r]) # r5"
    by auto
  from o obtain r6 where o': "rmatch (Opt (OneOf ''-+'')) (0, sg @ ds) Map.empty = ((?k, ds), Map.empty) # r6"
    by blast
  from seq_first [OF o', of "Seq (Grp 1 (Star (Lit CHR ''0''))) (Grp 2 (Star Digit))"] q1
  obtain r7 where q2: "rmatch (Seq (Opt (OneOf ''-+'')) (Seq (Grp 1 (Star (Lit CHR ''0''))) (Grp 2 (Star Digit))))
      (0, sg @ ds) Map.empty
      = ((?k + length ?z + length ?r, []), [1 \<mapsto> take (length ?z) ds, 2 \<mapsto> ?r]) # r7"
    by auto
  have tz: "take (length ?z) ds = ?z"
    by (metis append_eq_conv_conj takeWhile_dropWhile_id)
  have "rmatch leadingzeros_re (0, sg @ ds) Map.empty
      = ((?k + length ?z + length ?r, []), [1 \<mapsto> ?z, 2 \<mapsto> ?r]) # r7"
    using q2 by (simp add: leadingzeros_re_def tz)
  then show ?thesis by (simp add: re_search_def)
qed

lemma digit_tail_digits: "\<forall>c\<in>set ds. is_digit c \<Longrightarrow> digit_tail ds = (ds, [])"
  by (induction ds rule: digit_tail.induct) auto

lemma digitpart_digits:
  "ds \<noteq> [] \<Longrightarrow> \<forall>c\<in>set ds. is_digit c \<Longrightarrow> digitpart ds = Some (ds, [])"
  by (cases ds) (auto simp: digitpart_def digit_tail_digits)

lemma py_float_digits:
  assumes ne: "ds \<noteq> []" and dig: "\<forall>c\<in>set ds. is_digit c" and sg: "sg \<in> {[], ''-'', ''+''}"
  shows "py_float (sg @ ds) =
           Some (if sg = ''-'' then - real (nat_of_digits ds) else real (nat_of_digits ds))"
proof -
  obtain c cs where ds: "ds = c # cs" using ne by (cases ds) auto
  with dig have c: "c \<noteq> CHR ''-''" "c \<noteq> CHR ''+''" using is_digit_not_sign by auto
  have ts: "take_sign (sg @ ds) = (sg = ''-'', ds)"
    using sg c ds by (auto simp: take_sign_def)
  have m: "py_mantissa ds = Some (ds, [], [])"
    using digitpart_digits [OF ne dig] by (simp add: py_mantissa_def)
  show ?thesis by (simp add: py_float_def ts m py_exponent_def)
qed

subsection \<open>Claim C3: the value of a digit string\<close>

text \<open>
  Claim C3. Let \<open>ds\<close> be a non-empty string of digits, of length \<open>L\<close>, with an optional
  sign \<open>sg\<close> in front, and let \<open>v\<close> be its signed value \<^verbatim>\<open>int(sg + ds)\<close>. With leading
  zeros kept (\<^verbatim>\<open>zeros\<close> is \<^verbatim>\<open>"L"\<close> or \<^verbatim>\<open>"LZ"\<close>) \<^verbatim>\<open>parse_number\<close> returns
  \<open>v / 10^(L - u)\<close>, \<open>u\<close> being the upper digit count of the current units; otherwise it
  returns \<open>v / 10^l\<close>, \<open>l\<close> being the lower digit count of the current units. The sign
  is not counted in \<open>L\<close>. The floats are real numbers here.
\<close>

theorem parse_number_decodes:
  assumes "ds \<noteq> []" and "\<forall>c\<in>set ds. is_digit c" and "sg \<in> {[], ''-'', ''+''}"
    and "v = (if sg = ''-'' then - real (nat_of_digits ds) else real (nat_of_digits ds))"
  shows "parse_number e (Some (sg @ ds)) =
     Inr (Some
       (if zeros e = Some ''L'' \<or> zeros e = Some ''LZ''
        then v / 10 powi (int (length ds) -
                 int (if py_lower (units e) = ''in'' then excellon_format_upper_in e
                      else excellon_format_upper_mm e))
        else v / 10 powi (int (if py_lower (units e) = ''in'' then excellon_format_lower_in e
                               else excellon_format_lower_mm e))))"
proof -
  from leadingzeros_first [OF assms(1-3)] obtain m where
    m: "re_search leadingzeros_re (sg @ ds) = Some m"
       "m 1 = Some (takeWhile (\<lambda>c. c = CHR ''0'') ds)"
       "m 2 = Some (dropWhile (\<lambda>c. c = CHR ''0'') ds)" by blast
  have "length (takeWhile (\<lambda>c. c = CHR ''0'') ds) + length (dropWhile (\<lambda>c. c = CHR ''0'') ds)
          = length ds"
    by (metis length_append takeWhile_dropWhile_id)
  then have len: "int (length (takeWhile (\<lambda>c. c = CHR ''0'') ds))
      + int (length (dropWhile (\<lambda>c. c = CHR ''0'') ds)) = int (length ds)"
    by simp
  have m1: "m (Suc 0) = Some (takeWhile (\<lambda>c. c = CHR ''0'') ds)" using m(2) by simp
  show ?thesis
    using py_float_digits [OF assms(1-3)] assms(4)
    by (simp add: parse_number_def m(1,3) m1 len Let_def)
qed

text \<open>Claim C3 at \<^verbatim>\<open>"010000"\<close> in millimetres, format 3.3, leading zeros kept, and at
  \<^verbatim>\<open>"-0125"\<close> in inches, format 2.4, trailing zeros kept.\<close>

theorem parse_number_decodes_witness:
  "parse_number (new_excellon ''MM'') (Some ''010000'') = Inr (Some 10)
   \<and> parse_number ((new_excellon ''IN'')\<lparr>zeros := Some ''T''\<rparr>) (Some ''-0125'') = Inr (Some (- (1 / 80)))"
proof -
  have a: "''010000'' \<noteq> []" "\<forall>c\<in>set ''010000''. is_digit c" "[] \<in> {[], ''-'', ''+''}"
    by (simp_all add: is_digit_def)
  have b: "''0125'' \<noteq> []" "\<forall>c\<in>set ''0125''. is_digit c" "''-'' \<in> {[], ''-'', ''+''}"
    by (simp_all add: is_digit_def)
  have n: "nat_of_digits ''010000'' = 10000" "nat_of_digits ''0125'' = 125"
    by (simp_all add: nat_of_digits_def digit_val_def)
  from parse_number_decodes [OF a refl, of "new_excellon ''MM''"]
    parse_number_decodes [OF b refl, of "(new_excellon ''IN'')\<lparr>zeros := Some ''T''\<rparr>"] n
  show ?thesis
    by (simp add: new_excellon_def py_lower_def lower_char_def)
qed

subsection \<open>Evaluating the parser on given lines\<close>

lemmas rx_eval = re_search_def re_match_def lits_def Plus_def one_char_def is_digit_def is_space_def

lemma gcode_mark_detected:
  "re_search detect_gcode_re ''G20'' \<noteq> None" "re_search detect_gcode_re ''G21'' \<noteq> None"
  by (simp_all add: rx_eval detect_gcode_re_def)

lemma parse_line_gcode:
  assumes "clean raw = ''G20'' \<or> clean raw = ''G21''"
  shows "parse_line e l raw =
     (if abort_flag e then Raise GracefulException (e, l)
      else Return (e\<lparr>source_file := source_file e @ raw,
                     inform := inform e @ [Gcode_mark (clean raw)]\<rparr>,
                   l\<lparr>line_num := line_num l + 1\<rparr>))"
  using assms gcode_mark_detected
  by (auto simp: parse_line_def clean_def Let_def)

subsection \<open>Claim C7: a G-code file\<close>

text \<open>
  Claim C7. If the first line, once stripped of blanks and line ends, is \<^verbatim>\<open>G20\<close> or
  \<^verbatim>\<open>G21\<close>, \<^verbatim>\<open>parse_lines\<close> ends at that line whatever follows: the drills, the slots and
  the tools of the object are what they were before the call, and no exception
  escapes (the method returns). When no abort is requested it returns \<^verbatim>\<open>None\<close> after
  sending the message that the line is a G-code mark, and the only other change is the
  line added to \<^verbatim>\<open>source_file\<close>.
\<close>

theorem gcode_first_line_aborts:
  assumes "clean raw = ''G20'' \<or> clean raw = ''G21''"
  shows "drills (snd (parse_lines e (raw # rest))) = drills e
     \<and> slots (snd (parse_lines e (raw # rest))) = slots e
     \<and> tools (snd (parse_lines e (raw # rest))) = tools e
     \<and> (abort_flag e = False \<longrightarrow>
          parse_lines e (raw # rest) =
            (None, e\<lparr>source_file := source_file e @ raw,
                      inform := inform e @ [Gcode_mark (clean raw)]\<rparr>))"
  by (simp add: parse_lines_def parse_line_gcode [OF assms])

text \<open>Claim C7 at the lines \<^verbatim>\<open>G21\<close> (with its line end) and \<^verbatim>\<open>X01Y01\<close>, on a new object.\<close>

theorem gcode_first_line_aborts_witness:
  "parse_lines (new_excellon ''IN'') [''G21'' @ [CHR 0x0A], ''X01Y01''] =
     (None, (new_excellon ''IN'')\<lparr>source_file := ''G21'' @ [CHR 0x0A], inform := [Gcode_mark ''G21'']\<rparr>)
   \<and> drills (snd (parse_lines (new_excellon ''IN'') [''G21'' @ [CHR 0x0A], ''X01Y01''])) = []"
proof -
  have c: "clean (''G21'' @ [CHR 0x0A]) = ''G21''" by (simp add: clean_def py_strip_def)
  then have a: "clean (''G21'' @ [CHR 0x0A]) = ''G20'' \<or> clean (''G21'' @ [CHR 0x0A]) = ''G21''" by simp
  have b: "abort_flag (new_excellon ''IN'') = False" "drills (new_excellon ''IN'') = []"
    "source_file (new_excellon ''IN'') = []" "inform (new_excellon ''IN'') = []"
    by (simp_all add: new_excellon_def)
  from gcode_first_line_aborts [OF a, of "new_excellon ''IN''" "[''X01Y01'']"] b c
  show ?thesis by simp
qed

lemmas re_defs = hbegin_re_def allegro_hbegin_re_def hend_re_def units_re_def tool_number_def
  toolset_re_def detect_gcode_re_def toolsel_re_def toolset_hl_re_def comm_re_def absinc_re_def
  meas_re_def coordsperiod_re_def coordsnoperiod_re_def slots_re_def stop_re_def
  tool_units_re_def altium_format_def repeat_re_def zeros_re_def leadingzeros_re_def

lemmas py_defs = py_strip_def py_upper_def py_lower_def upper_char_def lower_char_def
  digit_val_def nat_of_digits_def py_int_def py_str.simps digitpart_def take_sign_def
  py_exponent_def py_mantissa_def py_float_def float_of_group_def int_of_group_def dict_get_def

lemmas geometry_defs = resolution_def clear_tools_def create_geometry_def scale_point_def
  scale_geom_def scale_def convert_units_def

lemmas parse_defs = parse_number_def next_stage_def units_directive_def holesize_units_def
  holesize_tool_def altium_comment_def comment_line_def header_end_def measuring_mode_def
  header_line_def units_outside_header_def tool_change_def allegro_tool_change_def
  slot_axis_def slot_coords_def period_number_def slots_block_def read_repeat_def read_x_def
  read_y_def truthy_def routing_parse_def noperiod_point_def coords_noperiod_def
  period_point_def coords_period_def body_line_def parse_line_def parse_lines_def
  new_locals_def new_excellon_def

subsection \<open>Claim C4: repeated holes\<close>

text \<open>
  Claim C4 fails on the code where the previous position has a zero coordinate. On a
  new object (inches, format 2.4, leading zeros kept), the line \<^verbatim>\<open>X0Y0\<close> makes a drill at
  \<open>(0, 0)\<close>, and the line \<^verbatim>\<open>R2X01Y01\<close> then has the step \<open>(1, 1)\<close>, the base \<open>(0, 0)\<close> and the
  count 2: the claim puts the two drills at \<open>(2, 2)\<close> and \<open>(1, 1)\<close>. The code tests the
  base with \<^verbatim>\<open>if repeating_x:\<close>, which is false for \<open>0.0\<close> as it is for the \<open>0\<close> that marks
  an axis absent from the line, and puts both drills at \<open>(1, 1)\<close>.
\<close>

theorem repeat_from_zero_base:
  "fst (parse_lines (new_excellon ''IN'') [''X0Y0'', ''R2X01Y01'']) = None
   \<and> drills (snd (parse_lines (new_excellon ''IN'') [''X0Y0'', ''R2X01Y01''])) =
       [\<lparr>drill_point = (0, 0), drill_tool = []\<rparr>,
        \<lparr>drill_point = (1, 1), drill_tool = []\<rparr>,
        \<lparr>drill_point = (1, 1), drill_tool = []\<rparr>]"
  by (simp add: rx_eval re_defs py_defs parse_defs Let_def numeral_2_eq_2)

text \<open>
  Away from that case the loop does what claim C4 says: with a base other than zero on
  both axes, the \<open>n\<close> drills are at \<open>k * step + base\<close> for \<open>k\<close> from \<open>n\<close> down to 1.
\<close>

lemma repeat_loop_steps:
  assumes "truthy rx" and "truthy ry"
  shows "repeat_loop n x y rx ry coordx coordy tool_name ds =
     ds @ map (\<lambda>k. \<lparr>drill_point = (real k * x + the rx, real k * y + the ry),
                       drill_tool = tool_name\<rparr>) (rev [1..<Suc n])"
proof (induction n arbitrary: coordx coordy ds)
  case 0
  show ?case by simp
next
  case (Suc n)
  have "[1..<Suc (Suc n)] = [1..<Suc n] @ [Suc n]" by simp
  then have r: "rev [1..<Suc (Suc n)] = Suc n # rev [1..<Suc n]" by (simp only: rev_append rev.simps append.simps)
  show ?case
    unfolding r using assms by (simp add: Suc.IH Let_def del: upt_Suc)
qed

lemma routing_parse_repeat:
  assumes "contains ''G00'' eline = False" and "contains ''G01'' eline = False"
    and "match_routing_start e = None" and "match_routing_stop e = None"
    and "repeat l = n" and "0 < n" and "truthy (repeating_x l)" and "truthy (repeating_y l)"
  shows "routing_parse e l eline x y =
     Continue (e\<lparr>drills := drills e @
                   map (\<lambda>k. \<lparr>drill_point = (real k * x + the (repeating_x l),
                                              real k * y + the (repeating_y l)),
                                drill_tool = current_tool l\<rparr>) (rev [1..<Suc n])\<rparr>,
               l\<lparr>repeat := 0, repeating_x := Some 0, repeating_y := Some 0\<rparr>)"
  using assms by (simp add: routing_parse_def repeat_loop_steps del: upt_Suc)

subsection \<open>What a line leaves alone\<close>

lemma scale_frame:
  "match_routing_start (scale e xf yo po) = match_routing_start e"
  "match_routing_stop (scale e xf yo po) = match_routing_stop e"
  "routing_flag (scale e xf yo po) = routing_flag e"
  "length (drills (scale e xf yo po)) = length (drills e)"
  "length (slots (scale e xf yo po)) = length (slots e)"
  "abort_flag (scale e xf yo po) = abort_flag e"
  by (simp_all add: scale_def Let_def)

lemma convert_units_frame:
  "match_routing_start (snd (convert_units e u)) = match_routing_start e"
  "match_routing_stop (snd (convert_units e u)) = match_routing_stop e"
  "routing_flag (snd (convert_units e u)) = routing_flag e"
  "length (drills (snd (convert_units e u))) = length (drills e)"
  "length (slots (snd (convert_units e u))) = length (slots e)"
  "abort_flag (snd (convert_units e u)) = abort_flag e"
  by (simp_all add: convert_units_def Let_def scale_frame)

lemma steady_refl [simp]: "steady eline s s"
  by (cases "match_routing_start (fst s)") (simp_all add: steady_def)

lemma steady_trans: "steady eline a b \<Longrightarrow> steady eline b c \<Longrightarrow> steady eline a c"
  unfolding steady_def by auto

lemma steady_calm:
  assumes "match_routing_start e' = match_routing_start e"
    and "length (drills e') = length (drills e)"
    and "routing_flag e' = routing_flag e"
    and "slot_start_x l' = slot_start_x l" and "slot_start_y l' = slot_start_y l"
    and "length (slots e') = length (slots e)"
  shows "steady eline (e, l) (e', l')"
  using assms by (cases "match_routing_start e") (simp_all add: steady_def)

lemma steady_next_stage:
  assumes "steady eline s (state_of f)"
    and "\<And>e' l'. steady eline (e', l') (state_of (g e' l'))"
  shows "steady eline s (state_of (next_stage f g))"
proof (cases f)
  case (Next s')
  have "steady eline (fst s', snd s') (state_of (g (fst s') (snd s')))" by (rule assms(2))
  with assms(1) Next show ?thesis
    by (auto simp: next_stage_def state_of_def intro: steady_trans)
qed (use assms(1) in \<open>simp_all add: next_stage_def state_of_def\<close>)

lemma state_of_simps [simp]:
  "state_of (Next s) = s" "state_of (Continue s) = s" "state_of (Return s) = s"
  "state_of (Raise x s) = s"
  by (simp_all add: state_of_def)

lemma steady_units_directive: "steady eline (e, l) (state_of (units_directive e l m))"
  by (auto simp: units_directive_def Let_def convert_units_frame intro!: steady_calm
      split: sum.splits option.splits)

lemma steady_holesize_units: "steady eline (e, l) (state_of (holesize_units e l m))"
  by (auto simp: holesize_units_def Let_def convert_units_frame intro!: steady_calm
      split: sum.splits option.splits)

lemma steady_holesize_tool: "steady eline (e, l) (state_of (holesize_tool e l m))"
  by (auto simp: holesize_tool_def Let_def intro!: steady_calm split: sum.splits option.splits)

lemma steady_altium_comment: "steady eline (e, l) (state_of (altium_comment e l el))"
  by (auto simp: altium_comment_def Let_def intro!: steady_calm split: sum.splits option.splits)

lemma steady_comment_line: "steady eline (e, l) (state_of (comment_line e l el))"
  unfolding comment_line_def
  by (intro steady_next_stage steady_altium_comment)
     (auto split: option.splits intro!: steady_next_stage steady_holesize_units steady_holesize_tool)

lemma steady_header_end: "steady eline (e, l) (state_of (header_end e l))"
  by (auto simp: header_end_def Let_def convert_units_frame intro!: steady_calm
      split: sum.splits option.splits)

lemma steady_measuring_mode: "steady eline (e, l) (state_of (measuring_mode e l el))"
  by (auto simp: measuring_mode_def Let_def convert_units_frame intro!: steady_calm
      split: sum.splits option.splits)

lemma steady_header_line: "steady eline (e, l) (state_of (header_line e l el))"
  by (auto simp: header_line_def Let_def convert_units_frame steady_units_directive
      intro!: steady_calm split: sum.splits option.splits)

lemma steady_units_outside_header: "steady eline (e, l) (state_of (units_outside_header e l el))"
  by (auto simp: units_outside_header_def steady_units_directive split: option.splits)

lemma steady_tool_change: "steady eline (e, l) (state_of (tool_change e l el))"
  by (auto simp: tool_change_def Let_def intro!: steady_calm split: sum.splits option.splits)

lemma steady_allegro_tool_change: "steady eline (e, l) (state_of (allegro_tool_change e l el))"
  by (auto simp: allegro_tool_change_def intro!: steady_calm)

lemma slot_coords_frame:
  "match_routing_start (fst (state_of (slot_coords conv sm tm e l))) = match_routing_start e
   \<and> drills (fst (state_of (slot_coords conv sm tm e l))) = drills e"
  by (auto simp: slot_coords_def Let_def split: option.splits)

lemma steady_slots_block: "steady eline (e, l) (state_of (slots_block e l eline))"
proof (cases "re_search slots_re eline")
  case None
  then show ?thesis by (simp add: slots_block_def)
next
  case (Some m)
  have "match_routing_start (fst (state_of (slots_block e l eline))) = match_routing_start e
      \<and> drills (fst (state_of (slots_block e l eline))) = drills e"
    using slot_coords_frame [of _ _ _ "e\<lparr>excellon_drills := Some False\<rparr>" l]
    by (auto simp: slots_block_def Let_def Some split: option.splits)
  with Some show ?thesis
    by (cases "match_routing_start e") (simp_all add: steady_def)
qed

lemma steady_routing_parse: "steady eline (e, l) (state_of (routing_parse e l eline x y))"
  by (cases "match_routing_start e")
     (auto simp: routing_parse_def steady_def Let_def split: option.splits)

lemma read_repeat_frame:
  "read_repeat l el = Inr l' \<Longrightarrow> slot_start_x l' = slot_start_x l \<and> slot_start_y l' = slot_start_y l
     \<and> current_tool l' = current_tool l \<and> in_header l' = in_header l"
  by (auto simp: read_repeat_def split: option.splits sum.splits)

lemma read_x_frame:
  "read_x r l = Inr p \<Longrightarrow> slot_start_x (snd p) = slot_start_x l \<and> slot_start_y (snd p) = slot_start_y l
     \<and> current_tool (snd p) = current_tool l \<and> in_header (snd p) = in_header l"
  by (auto simp: read_x_def split: sum.splits if_splits)

lemma read_y_frame:
  "read_y r l = Inr p \<Longrightarrow> slot_start_x (snd p) = slot_start_x l \<and> slot_start_y (snd p) = slot_start_y l
     \<and> current_tool (snd p) = current_tool l \<and> in_header (snd p) = in_header l"
  by (auto simp: read_y_def split: sum.splits if_splits)

lemma noperiod_point_Inl:
  "noperiod_point e l el = Inl f \<Longrightarrow> steady eline (e, l) (state_of f)"
  by (auto simp: noperiod_point_def Let_def intro!: steady_calm
      dest!: read_repeat_frame read_x_frame read_y_frame split: option.splits sum.splits)

lemma noperiod_point_Inr:
  "noperiod_point e l el = Inr p \<Longrightarrow>
     slot_start_x (snd (snd p)) = slot_start_x l \<and> slot_start_y (snd (snd p)) = slot_start_y l
     \<and> current_tool (snd (snd p)) = current_tool l"
  by (auto simp: noperiod_point_def Let_def
      dest!: read_repeat_frame read_x_frame read_y_frame split: option.splits sum.splits)

lemma period_point_Inl:
  "period_point e l el = Inl f \<Longrightarrow> steady eline (e, l) (state_of f)"
  by (auto simp: period_point_def Let_def intro!: steady_calm
      dest!: read_repeat_frame read_x_frame read_y_frame split: option.splits sum.splits)

lemma period_point_Inr:
  "period_point e l el = Inr p \<Longrightarrow>
     slot_start_x (snd (snd p)) = slot_start_x l \<and> slot_start_y (snd (snd p)) = slot_start_y l
     \<and> current_tool (snd (snd p)) = current_tool l"
  by (auto simp: period_point_def Let_def
      dest!: read_repeat_frame read_x_frame read_y_frame split: option.splits sum.splits)

lemma steady_coords_noperiod: "steady eline (e, l) (state_of (coords_noperiod e l eline))"
proof (cases "noperiod_point e l eline")
  case (Inl f)
  then show ?thesis by (simp add: coords_noperiod_def noperiod_point_Inl)
next
  case (Inr p)
  have a: "steady eline (e, l) (e, snd (snd p))"
    using noperiod_point_Inr [OF Inr] by (intro steady_calm) simp_all
  have b: "steady eline (e, snd (snd p))
             (state_of (routing_parse e (snd (snd p)) eline (fst p) (fst (snd p))))"
    by (rule steady_routing_parse)
  show ?thesis using steady_trans [OF a b] Inr by (simp add: coords_noperiod_def)
qed

lemma steady_coords_period: "steady eline (e, l) (state_of (coords_period e l eline))"
proof (cases "period_point e l eline")
  case (Inl f)
  then show ?thesis by (simp add: coords_period_def period_point_Inl)
next
  case (Inr p)
  have a: "steady eline (e, l) (e\<lparr>excellon_drills := Some True\<rparr>, snd (snd p))"
    using period_point_Inr [OF Inr] by (intro steady_calm) simp_all
  have b: "steady eline (e\<lparr>excellon_drills := Some True\<rparr>, snd (snd p))
             (state_of (routing_parse (e\<lparr>excellon_drills := Some True\<rparr>) (snd (snd p)) eline
                (fst p) (fst (snd p))))"
    by (rule steady_routing_parse)
  show ?thesis using steady_trans [OF a b] Inr by (simp add: coords_period_def)
qed

lemma steady_body_line: "steady eline (e, l) (state_of (body_line e l eline))"
  unfolding body_line_def
  by (intro steady_next_stage steady_tool_change steady_allegro_tool_change steady_slots_block
      steady_coords_noperiod steady_coords_period)

lemma steady_parse_line: "steady (clean raw) (e, l) (state_of (parse_line e l raw))"
proof (cases "abort_flag e")
  case True
  then show ?thesis by (simp add: parse_line_def)
next
  case False
  let ?e = "e\<lparr>source_file := source_file e @ raw\<rparr>"
  let ?l = "l\<lparr>line_num := line_num l + 1\<rparr>"
  let ?el = "clean raw"
  have a: "steady ?el (e, l) (?e, ?l)" by (intro steady_calm) simp_all
  have b: "steady ?el (e, l) (?e\<lparr>inform := inform ?e @ [Gcode_mark ?el]\<rparr>, ?l)"
    by (intro steady_calm) simp_all
  have c: "steady ?el (e, l) (?e, ?l\<lparr>in_header := True, headerless := False\<rparr>)"
    by (intro steady_calm) simp_all
  have d: "steady ?el (e, l) (?e, ?l\<lparr>in_header := True, allegro_warning := True\<rparr>)"
    by (intro steady_calm) simp_all
  have rest: "steady ?el (?e, ?l)
     (state_of (next_stage (if re_search comm_re ?el \<noteq> None then comment_line ?e ?l ?el
                          else if re_search hend_re ?el \<noteq> None then header_end ?e ?l
                          else Next (?e, ?l))
                (\<lambda>e1 l1. next_stage (measuring_mode e1 l1 ?el)
                (\<lambda>e2 l2. next_stage (if \<not> in_header l2 then body_line e2 l2 ?el else Next (e2, l2))
                (\<lambda>e3 l3. next_stage (if in_header l3 then header_line e3 l3 ?el else Next (e3, l3))
                (\<lambda>e4 l4. next_stage (units_outside_header e4 l4 ?el)
                (\<lambda>e5 l5. Continue (e5, l5))))))))"
    by (intro steady_next_stage)
       (simp_all add: steady_comment_line steady_header_end steady_measuring_mode
          steady_body_line steady_header_line steady_units_outside_header)
  let ?rest = "next_stage (if re_search comm_re ?el \<noteq> None then comment_line ?e ?l ?el
                          else if re_search hend_re ?el \<noteq> None then header_end ?e ?l
                          else Next (?e, ?l))
                (\<lambda>e1 l1. next_stage (measuring_mode e1 l1 ?el)
                (\<lambda>e2 l2. next_stage (if \<not> in_header l2 then body_line e2 l2 ?el else Next (e2, l2))
                (\<lambda>e3 l3. next_stage (if in_header l3 then header_line e3 l3 ?el else Next (e3, l3))
                (\<lambda>e4 l4. next_stage (units_outside_header e4 l4 ?el)
                (\<lambda>e5 l5. Continue (e5, l5))))))"
  have pl: "parse_line e l raw =
      (if re_search detect_gcode_re ?el \<noteq> None
       then Return (?e\<lparr>inform := inform ?e @ [Gcode_mark ?el]\<rparr>, ?l)
       else if re_search hbegin_re ?el \<noteq> None
       then Continue (?e, ?l\<lparr>in_header := True, headerless := False\<rparr>)
       else if re_search allegro_hbegin_re ?el \<noteq> None
       then Continue (?e, ?l\<lparr>in_header := True, allegro_warning := True\<rparr>)
       else ?rest)"
    using False unfolding parse_line_def Let_def clean_def by simp
  consider (g) "re_search detect_gcode_re ?el \<noteq> None"
    | (h) "re_search detect_gcode_re ?el = None" "re_search hbegin_re ?el \<noteq> None"
    | (a) "re_search detect_gcode_re ?el = None" "re_search hbegin_re ?el = None"
          "re_search allegro_hbegin_re ?el \<noteq> None"
    | (r) "re_search detect_gcode_re ?el = None" "re_search hbegin_re ?el = None"
          "re_search allegro_hbegin_re ?el = None"
    by blast
  then show ?thesis
  proof cases
    case g
    then have "parse_line e l raw = Return (?e\<lparr>inform := inform ?e @ [Gcode_mark ?el]\<rparr>, ?l)"
      by (simp add: pl)
    with b show ?thesis by simp
  next
    case h
    then have "parse_line e l raw = Continue (?e, ?l\<lparr>in_header := True, headerless := False\<rparr>)"
      by (simp add: pl)
    with c show ?thesis by simp
  next
    case a
    then have "parse_line e l raw = Continue (?e, ?l\<lparr>in_header := True, allegro_warning := True\<rparr>)"
      by (simp add: pl)
    with d show ?thesis by simp
  next
    case r
    then have "parse_line e l raw = ?rest"
      by (simp add: pl)
    with steady_trans [OF a rest] show ?thesis by simp
  qed
qed

lemma next_stage_done: "(\<And>s. f \<noteq> Next s) \<Longrightarrow> next_stage f g = f"
  by (cases f) (auto simp: next_stage_def)

lemma next_stage_Next [simp]: "next_stage (Next s) g = g (fst s) (snd s)"
  by (simp add: next_stage_def)

text \<open>A line that passes every test before the coordinate blocks, outside the header.\<close>

lemma parse_line_to_coordinates:
  assumes "abort_flag e = False" and "in_header l = False" and "to_coordinates l (clean raw)"
  shows "parse_line e l raw =
     next_stage (next_stage (coords_noperiod (e\<lparr>source_file := source_file e @ raw\<rparr>)
                               (l\<lparr>line_num := Suc (line_num l)\<rparr>) (clean raw))
                            (\<lambda>e4 l4. coords_period e4 l4 (clean raw)))
       (\<lambda>e3 l3. next_stage (if in_header l3 then header_line e3 l3 (clean raw) else Next (e3, l3))
       (\<lambda>e4 l4. next_stage (units_outside_header e4 l4 (clean raw))
       (\<lambda>e5 l5. Continue (e5, l5))))"
proof -
  let ?el = "clean raw"
  let ?e1 = "e\<lparr>source_file := source_file e @ raw\<rparr>"
  let ?l1 = "l\<lparr>line_num := Suc (line_num l)\<rparr>"
  from assms(3) have t: "re_search detect_gcode_re ?el = None" "re_search hbegin_re ?el = None"
    "re_search allegro_hbegin_re ?el = None" "re_search comm_re ?el = None"
    "re_search hend_re ?el = None" "re_match meas_re ?el = None"
    "re_search toolsel_re ?el = None" "re_search slots_re ?el = None"
    and al: "allegro_warning l \<and> re_search absinc_re ?el = None \<and> re_search stop_re ?el = None
          \<or> allegro_warning l = False"
    by (simp_all add: to_coordinates_def)
  have m: "measuring_mode ?e1 ?l1 ?el = Next (?e1, ?l1)" by (simp add: measuring_mode_def t)
  have tc: "tool_change ?e1 ?l1 ?el = Next (?e1, ?l1)" by (simp add: tool_change_def t)
  have at: "allegro_tool_change ?e1 ?l1 ?el = Next (?e1, ?l1)"
    using al by (auto simp: allegro_tool_change_def)
  have sb: "slots_block ?e1 ?l1 ?el = Next (?e1, ?l1)" by (simp add: slots_block_def t)
  have b: "body_line ?e1 ?l1 ?el =
      next_stage (coords_noperiod ?e1 ?l1 ?el) (\<lambda>e4 l4. coords_period e4 l4 ?el)"
    by (simp add: body_line_def tc at sb)
  show ?thesis
    using assms(1,2)
    by (simp add: parse_line_def Let_def clean_def [symmetric] t m b)
qed

lemma line_point_frame:
  assumes "line_point e l raw = Some (x, y, e', l')"
  shows "abort_flag e = False" and "in_header l = False" and "to_coordinates l (clean raw)"
    and "routing_flag e' = routing_flag e" and "slots e' = slots e" and "drills e' = drills e"
    and "match_routing_start e' = match_routing_start e"
    and "match_routing_stop e' = match_routing_stop e"
    and "slot_start_x l' = slot_start_x l" and "slot_start_y l' = slot_start_y l"
    and "current_tool l' = current_tool l"
proof -
  let ?e1 = "e\<lparr>source_file := source_file e @ raw\<rparr>"
  let ?l1 = "l\<lparr>line_num := Suc (line_num l)\<rparr>"
  from assms show a: "abort_flag e = False" and b: "in_header l = False"
    and c: "to_coordinates l (clean raw)"
    by (auto simp: line_point_def Let_def split: if_splits)
  from assms a b c have
    "(\<exists>p. noperiod_point ?e1 ?l1 (clean raw) = Inr p \<and> x = fst p \<and> y = fst (snd p)
          \<and> e' = ?e1 \<and> l' = snd (snd p))
     \<or> (\<exists>p. period_point ?e1 ?l1 (clean raw) = Inr p \<and> x = fst p \<and> y = fst (snd p)
          \<and> e' = ?e1\<lparr>excellon_drills := Some True\<rparr> \<and> l' = snd (snd p))"
    by (auto simp: line_point_def Let_def split: if_splits sum.splits)
  then have "(e' = ?e1 \<or> e' = ?e1\<lparr>excellon_drills := Some True\<rparr>)
     \<and> slot_start_x l' = slot_start_x ?l1 \<and> slot_start_y l' = slot_start_y ?l1
     \<and> current_tool l' = current_tool ?l1"
    using noperiod_point_Inr period_point_Inr by blast
  then show "routing_flag e' = routing_flag e" and "slots e' = slots e" and "drills e' = drills e"
    and "match_routing_start e' = match_routing_start e"
    and "match_routing_stop e' = match_routing_stop e"
    and "slot_start_x l' = slot_start_x l" and "slot_start_y l' = slot_start_y l"
    and "current_tool l' = current_tool l"
    by auto
qed

lemma parse_line_point:
  assumes lp: "line_point e l raw = Some (x, y, e', l')"
    and nn: "\<And>s. routing_parse e' l' (clean raw) x y \<noteq> Next s"
  shows "parse_line e l raw = routing_parse e' l' (clean raw) x y"
proof -
  let ?e1 = "e\<lparr>source_file := source_file e @ raw\<rparr>"
  let ?l1 = "l\<lparr>line_num := Suc (line_num l)\<rparr>"
  let ?el = "clean raw"
  note f = line_point_frame [OF lp]
  note pl = parse_line_to_coordinates [OF f(1) f(2) f(3)]
  from lp f(1,2,3) have
    "(\<exists>p. noperiod_point ?e1 ?l1 ?el = Inr p \<and> x = fst p \<and> y = fst (snd p)
          \<and> e' = ?e1 \<and> l' = snd (snd p))
     \<or> (\<exists>p. noperiod_point ?e1 ?l1 ?el = Inl (Next (?e1, ?l1))
          \<and> period_point ?e1 ?l1 ?el = Inr p \<and> x = fst p \<and> y = fst (snd p)
          \<and> e' = ?e1\<lparr>excellon_drills := Some True\<rparr> \<and> l' = snd (snd p))"
    by (auto simp: line_point_def Let_def split: if_splits sum.splits)
  then have "next_stage (coords_noperiod ?e1 ?l1 ?el) (\<lambda>e4 l4. coords_period e4 l4 ?el)
      = routing_parse e' l' ?el x y"
  proof
    assume "\<exists>p. noperiod_point ?e1 ?l1 ?el = Inr p \<and> x = fst p \<and> y = fst (snd p)
          \<and> e' = ?e1 \<and> l' = snd (snd p)"
    then have "coords_noperiod ?e1 ?l1 ?el = routing_parse e' l' ?el x y"
      by (auto simp: coords_noperiod_def)
    then show ?thesis using next_stage_done [OF nn] by simp
  next
    assume "\<exists>p. noperiod_point ?e1 ?l1 ?el = Inl (Next (?e1, ?l1))
          \<and> period_point ?e1 ?l1 ?el = Inr p \<and> x = fst p \<and> y = fst (snd p)
          \<and> e' = ?e1\<lparr>excellon_drills := Some True\<rparr> \<and> l' = snd (snd p)"
    then show ?thesis by (auto simp: coords_noperiod_def coords_period_def)
  qed
  then show ?thesis using next_stage_done [OF nn] by (simp add: pl)
qed


lemma steady_quiet:
  "steady el s s' \<Longrightarrow> contains ''G00'' el = False \<Longrightarrow> contains ''G01'' el = False \<Longrightarrow>
   re_search slots_re el = None \<Longrightarrow>
   routing_flag (fst s') = routing_flag (fst s) \<and> slot_start_x (snd s') = slot_start_x (snd s)
   \<and> slot_start_y (snd s') = slot_start_y (snd s) \<and> length (slots (fst s')) = length (slots (fst s))"
  by (auto simp: steady_def)

lemma run_lines_quiet:
  assumes "\<forall>r\<in>set mids. contains ''G00'' (clean r) = False \<and> contains ''G01'' (clean r) = False
             \<and> re_search slots_re (clean r) = None"
    and "run_lines e l mids = Some (e2, l2)"
  shows "routing_flag e2 = routing_flag e \<and> slot_start_x l2 = slot_start_x l
     \<and> slot_start_y l2 = slot_start_y l \<and> length (slots e2) = length (slots e)"
  using assms
proof (induction mids arbitrary: e l)
  case Nil
  then show ?case by simp
next
  case (Cons r mids)
  from Cons.prems(1) have q: "contains ''G00'' (clean r) = False" "contains ''G01'' (clean r) = False"
    "re_search slots_re (clean r) = None" by simp_all
  from Cons.prems(2) obtain s where s: "parse_line e l r = Continue s \<or> parse_line e l r = Next s"
    and rest: "run_lines (fst s) (snd s) mids = Some (e2, l2)"
    by (cases "parse_line e l r") simp_all
  from s have so: "state_of (parse_line e l r) = s" by auto
  have "steady (clean r) (e, l) s" using steady_parse_line [of r e l] so by simp
  from steady_quiet [OF this q]
  have st: "routing_flag (fst s) = routing_flag e \<and> slot_start_x (snd s) = slot_start_x l
     \<and> slot_start_y (snd s) = slot_start_y l \<and> length (slots (fst s)) = length (slots e)"
    by simp
  from Cons.prems(1) have "\<forall>r\<in>set mids. contains ''G00'' (clean r) = False
      \<and> contains ''G01'' (clean r) = False \<and> re_search slots_re (clean r) = None" by simp
  from Cons.IH [OF this rest] st show ?case by simp
qed

lemma run_lines_parse_loop:
  "run_lines e l ls = Some (e2, l2) \<Longrightarrow> parse_loop e l (ls @ rest) = parse_loop e2 l2 rest"
proof (induction ls arbitrary: e l)
  case Nil
  then show ?case by simp
next
  case (Cons r ls)
  then show ?case by (cases "parse_line e l r") simp_all
qed


lemma routing_parse_G00:
  "contains ''G00'' eline \<Longrightarrow>
   routing_parse e l eline x y =
     Continue (e\<lparr>match_routing_start := Some ''G00'', excellon_drills := Some False,
                 routing_flag := 0\<rparr>,
               l\<lparr>slot_start_x := Some x, slot_start_y := Some y\<rparr>)"
  by (simp add: routing_parse_def)

lemma parse_line_G00:
  assumes "line_point e l raw = Some (x, y, e', l')" and "contains ''G00'' (clean raw)"
  shows "parse_line e l raw =
     Continue (e'\<lparr>match_routing_start := Some ''G00'', excellon_drills := Some False,
                  routing_flag := 0\<rparr>,
               l'\<lparr>slot_start_x := Some x, slot_start_y := Some y\<rparr>)"
  using parse_line_point [OF assms(1)] routing_parse_G00 [OF assms(2)] by simp

subsection \<open>Claim C9: the routing marker\<close>



lemma routing_parse_G01:
  assumes "contains ''G00'' eline = False" and "contains ''G01'' eline" and "routing_flag e = 0"
    and "slot_start_x l = Some sx" and "slot_start_y l = Some sy"
  shows "routing_parse e l eline x y =
     Continue (e\<lparr>match_routing_stop := Some ''G01'', excellon_drills := Some False,
                 routing_flag := 1,
                 slots := slots e @ [\<lparr>slot_start = (sx, sy), slot_stop = (x, y),
                                      slot_tool = current_tool l\<rparr>]\<rparr>, l)"
  using assms by (simp add: routing_parse_def Let_def)

subsection \<open>Claim C5: a rout from G00 to G01\<close>

text \<open>
  Claim C5, as amended. Let a coordinate line with \<^verbatim>\<open>G00\<close> reach the routing code with
  the point \<open>(x0, y0)\<close> (it is read in the body, and both coordinates are known, from the
  line or from the lines before). Let the lines after it contain neither \<^verbatim>\<open>G00\<close> nor
  \<^verbatim>\<open>G01\<close> and not be \<^verbatim>\<open>G85\<close> slot lines, and let the parse go through them without
  \<^verbatim>\<open>return\<close> or exception. Then these lines add no slot and the parse so far returns
  \<^verbatim>\<open>None\<close>: a rout that is never closed makes no slot and is no error. And if the next
  line is a coordinate line with \<^verbatim>\<open>G01\<close> that reaches the routing code with the point
  \<open>(x1, y1)\<close>, that line appends exactly one slot, from \<open>(x0, y0)\<close> to \<open>(x1, y1)\<close>, with the
  tool selected at that time.
\<close>

theorem rout_makes_one_slot:
  assumes g00: "line_point e l raw0 = Some (x0, y0, e0, l0)" "contains ''G00'' (clean raw0)"
    and mids: "\<forall>r\<in>set mids. contains ''G00'' (clean r) = False \<and> contains ''G01'' (clean r) = False
                 \<and> re_search slots_re (clean r) = None"
    and run: "run_lines e l (raw0 # mids) = Some (e2, l2)"
  shows "length (slots e2) = length (slots e)
     \<and> parse_loop e l (raw0 # mids) = (None, (e2, l2))
     \<and> (\<forall>raw1 x1 y1 e3 l3.
          line_point e2 l2 raw1 = Some (x1, y1, e3, l3)
          \<and> contains ''G01'' (clean raw1) \<and> contains ''G00'' (clean raw1) = False \<longrightarrow>
          parse_line e2 l2 raw1 =
            Continue (e3\<lparr>match_routing_stop := Some ''G01'', excellon_drills := Some False,
                         routing_flag := 1,
                         slots := slots e2 @ [\<lparr>slot_start = (x0, y0), slot_stop = (x1, y1),
                                               slot_tool = current_tool l2\<rparr>]\<rparr>, l3))"
proof -
  let ?e1 = "e0\<lparr>match_routing_start := Some ''G00'', excellon_drills := Some False,
                  routing_flag := 0\<rparr>"
  let ?l1 = "l0\<lparr>slot_start_x := Some x0, slot_start_y := Some y0\<rparr>"
  note pl = parse_line_G00 [OF g00]
  from run have r1: "run_lines ?e1 ?l1 mids = Some (e2, l2)" by (simp add: pl)
  note q = run_lines_quiet [OF mids r1]
  from q have rf: "routing_flag e2 = 0" and sx: "slot_start_x l2 = Some x0"
    and sy: "slot_start_y l2 = Some y0" by simp_all
  have len: "length (slots e2) = length (slots e)"
    using q line_point_frame(5) [OF g00(1)] by simp
  have loop: "parse_loop e l (raw0 # mids) = (None, (e2, l2))"
    using run_lines_parse_loop [OF run, of "[]"] by simp
  have close: "parse_line e2 l2 raw1 =
            Continue (e3\<lparr>match_routing_stop := Some ''G01'', excellon_drills := Some False,
                         routing_flag := 1,
                         slots := slots e2 @ [\<lparr>slot_start = (x0, y0), slot_stop = (x1, y1),
                                               slot_tool = current_tool l2\<rparr>]\<rparr>, l3)"
    if lp: "line_point e2 l2 raw1 = Some (x1, y1, e3, l3)"
      and g1: "contains ''G01'' (clean raw1)" and g0: "contains ''G00'' (clean raw1) = False"
    for raw1 x1 y1 e3 l3
  proof -
    note f = line_point_frame [OF lp]
    have rp: "routing_parse e3 l3 (clean raw1) x1 y1 =
        Continue (e3\<lparr>match_routing_stop := Some ''G01'', excellon_drills := Some False,
                     routing_flag := 1,
                     slots := slots e3 @ [\<lparr>slot_start = (x0, y0), slot_stop = (x1, y1),
                                           slot_tool = current_tool l3\<rparr>]\<rparr>, l3)"
      by (rule routing_parse_G01 [OF g0 g1]) (simp_all add: f rf sx sy)
    show ?thesis using parse_line_point [OF lp] rp f(5) f(11) by simp
  qed
  show ?thesis using len loop close by blast
qed

subsection \<open>Claim C6: a G85 slot line\<close>

text \<open>
  Claim C6. In the body, with millimetres, format 3.3 and leading zeros kept, the line
  \<^verbatim>\<open>X010000Y020000G85X030000Y040000\<close> appends exactly one slot, from \<open>(10, 20)\<close> to
  \<open>(30, 40)\<close>, with the current tool; the only other changes are the bookkeeping of the
  line and the last slot position.
\<close>

theorem g85_slot_line:
  assumes "abort_flag e = False" and "in_header l = False" and "units e = ''MM''"
    and "zeros e = Some ''L''"
    and "excellon_format_upper_mm e = 3" and "excellon_format_lower_mm e = 3"
  shows "parse_line e l ''X010000Y020000G85X030000Y040000'' =
     Continue (e\<lparr>source_file := source_file e @ ''X010000Y020000G85X030000Y040000'',
                 excellon_drills := Some False,
                 slots := slots e @ [\<lparr>slot_start = (10, 20), slot_stop = (30, 40),
                                      slot_tool = current_tool l\<rparr>]\<rparr>,
               l\<lparr>line_num := line_num l + 1,
                 slot_start_x := Some 10, slot_current_x := Some 30,
                 slot_start_y := Some 20, slot_current_y := Some 40\<rparr>)"
  using assms
  by (simp add: rx_eval re_defs py_defs parse_defs Let_def)

text \<open>Claim C6 on a new object in millimetres with tool 1 selected.\<close>

theorem g85_slot_line_witness:
  "slots (fst (state_of (parse_line ((new_excellon ''MM'')\<lparr>tools := [(''1'', \<lparr>C = 1, tool_geometry = []\<rparr>)]\<rparr>)
                          (new_locals\<lparr>current_tool := ''1''\<rparr>)
                          ''X010000Y020000G85X030000Y040000''))) =
     [\<lparr>slot_start = (10, 20), slot_stop = (30, 40), slot_tool = ''1''\<rparr>]"
proof -
  let ?e = "(new_excellon ''MM'')\<lparr>tools := [(''1'', \<lparr>C = 1, tool_geometry = []\<rparr>)]\<rparr>"
  let ?l = "new_locals\<lparr>current_tool := ''1''\<rparr>"
  have a: "abort_flag ?e = False" "in_header ?l = False" "units ?e = ''MM''"
    "zeros ?e = Some ''L''" "excellon_format_upper_mm ?e = 3" "excellon_format_lower_mm ?e = 3"
    by (simp_all add: new_excellon_def new_locals_def)
  have b: "slots ?e = []" "current_tool ?l = ''1''"
    by (simp_all add: new_excellon_def new_locals_def)
  from g85_slot_line [OF a] b show ?thesis by simp
qed

text \<open>
  Claim C5 as stated fails: on a new object the line \<^verbatim>\<open>G00X01\<close> has no \<open>y\<close> (none on the
  line, none before), so the test for missing coordinates skips it before the routing
  code; the line \<^verbatim>\<open>G01X02Y02\<close> that follows finds no open rout and is appended as a
  Drill. The two lines make no slot.
\<close>

theorem rout_missing_coordinate_counterexample:
  "fst (parse_lines (new_excellon ''IN'') [''G00X01'', ''G01X02Y02'']) = None
   \<and> slots (snd (parse_lines (new_excellon ''IN'') [''G00X01'', ''G01X02Y02''])) = []
   \<and> drills (snd (parse_lines (new_excellon ''IN'') [''G00X01'', ''G01X02Y02''])) =
       [\<lparr>drill_point = (2, 2), drill_tool = []\<rparr>]"
  by (simp add: rx_eval re_defs py_defs parse_defs Let_def)

text \<open>An example: tool 1, then \<^verbatim>\<open>G00X01Y01\<close>, \<^verbatim>\<open>X02Y02\<close> and \<^verbatim>\<open>G01X03Y03\<close>.\<close>

lemma rout_example_start:
  "line_point (new_excellon ''IN'') (new_locals\<lparr>current_tool := ''1''\<rparr>) ''G00X01Y01'' =
     Some (1, 1, (new_excellon ''IN'')\<lparr>source_file := ''G00X01Y01''\<rparr>,
           new_locals\<lparr>current_tool := ''1'', current_x := Some 1, current_y := Some 1,
                      repeating_x := None, repeating_y := None, line_num := 1\<rparr>)"
  by (simp add: line_point_def to_coordinates_def clean_def rx_eval re_defs py_defs parse_defs Let_def)

lemma rout_example_run:
  "run_lines (new_excellon ''IN'') (new_locals\<lparr>current_tool := ''1''\<rparr>) [''G00X01Y01'', ''X02Y02'']
     = Some (rout_e2, rout_l2)"
  by (simp add: rout_e2_def rout_l2_def rx_eval re_defs py_defs parse_defs Let_def)

lemma rout_example_stop:
  "line_point rout_e2 rout_l2 ''G01X03Y03'' =
     Some (3, 3, rout_e2\<lparr>source_file := ''G00X01Y01X02Y02G01X03Y03''\<rparr>,
           rout_l2\<lparr>current_x := Some 3, current_y := Some 3,
                   repeating_x := Some 2, repeating_y := Some 2, line_num := 3\<rparr>)"
  by (simp add: rout_e2_def rout_l2_def line_point_def to_coordinates_def clean_def
      rx_eval re_defs py_defs parse_defs Let_def)

lemma rout_example_words:
  "contains ''G00'' (clean ''G00X01Y01'')" "contains ''G01'' (clean ''G01X03Y03'')"
  "contains ''G00'' (clean ''G01X03Y03'') = False"
  "\<forall>r\<in>set [''X02Y02'']. contains ''G00'' (clean r) = False \<and> contains ''G01'' (clean r) = False
     \<and> re_search slots_re (clean r) = None"
  by (simp_all add: clean_def py_strip_def rx_eval slots_re_def)

text \<open>The amended claim C5 at that example.\<close>

theorem rout_makes_one_slot_witness:
  "slots rout_e2 = []
   \<and> parse_loop (new_excellon ''IN'') (new_locals\<lparr>current_tool := ''1''\<rparr>) [''G00X01Y01'', ''X02Y02'']
       = (None, (rout_e2, rout_l2))
   \<and> slots (fst (state_of (parse_line rout_e2 rout_l2 ''G01X03Y03''))) =
       [\<lparr>slot_start = (1, 1), slot_stop = (3, 3), slot_tool = ''1''\<rparr>]"
proof -
  note t = rout_makes_one_slot [OF rout_example_start rout_example_words(1)
      rout_example_words(4) rout_example_run]
  from t have a: "length (slots rout_e2) = length (slots (new_excellon ''IN''))"
    and b: "parse_loop (new_excellon ''IN'') (new_locals\<lparr>current_tool := ''1''\<rparr>)
              [''G00X01Y01'', ''X02Y02''] = (None, (rout_e2, rout_l2))"
    by simp_all
  from t rout_example_stop rout_example_words(2,3)
  have c: "parse_line rout_e2 rout_l2 ''G01X03Y03'' =
      Continue ((rout_e2\<lparr>source_file := ''G00X01Y01X02Y02G01X03Y03''\<rparr>)
                  \<lparr>match_routing_stop := Some ''G01'', excellon_drills := Some False,
                   routing_flag := 1,
                   slots := slots rout_e2 @ [\<lparr>slot_start = (1, 1), slot_stop = (3, 3),
                                               slot_tool = current_tool rout_l2\<rparr>]\<rparr>,
                rout_l2\<lparr>current_x := Some 3, current_y := Some 3,
                        repeating_x := Some 2, repeating_y := Some 2, line_num := 3\<rparr>)"
    by blast
  have d: "slots (new_excellon ''IN'') = []" "current_tool rout_l2 = ''1''"
    by (simp_all add: new_excellon_def rout_l2_def new_locals_def)
  from a d have e: "slots rout_e2 = []" by simp
  from b c d e show ?thesis by simp
qed


end
